theory Spec2Isabelle
  imports Complex_Main
begin

section \<open>Data model (models.py)\<close>

text \<open>
  The model follows the source class by class. What it takes from the environment:
  \<^item> Prices are Python floats; the program only compares them, so a price is the rational
    number the (finite) float denotes.
  \<^item> Instants are \<open>datetime\<close> values, as microseconds since the epoch. The process clock and
    SQLite's \<open>CURRENT_TIMESTAMP\<close> are read off one clock (the process is taken to run in UTC).
  \<^item> Strings are lists of code points below 256.
  \<^item> SQLite executes every statement it is given: the \<open>except\<close> branches that only a storage
    error can reach return what the source returns there but are never taken.
  \<^item> The table \<open>notifications\<close> and the worker thread (\<open>start\<close>, \<open>stop\<close>, the outer loop
    with its sleeps) are not modelled; one polling cycle is.
\<close>

type_synonym price = rat
type_synonym datetime = int

datatype field_error =
    string_too_short
  | string_too_long
  | keywords_blank
  | min_price_negative
  | max_price_negative
  | max_price_not_above_min
  | price_not_positive
  | title_blank

datatype exn =
    ValidationError "field_error list"
  | WallapopAPIError
  | OtherException

text \<open>\<open>str.isspace\<close> on code points below 256, and \<open>str.strip()\<close>.\<close>

definition isspace :: "char \<Rightarrow> bool" where
  "isspace c = ((of_char c :: nat) \<in> {9, 10, 11, 12, 13, 28, 29, 30, 31, 32, 133, 160})"

definition strip :: "string \<Rightarrow> string" where
  "strip s = rev (dropWhile isspace (rev (dropWhile isspace s)))"

record ProductSearch =
  ps_chat_id :: string
  ps_keywords :: string
  ps_min_price :: "price option"
  ps_max_price :: "price option"
  ps_category_ids :: "string option"
  ps_distance :: string
  ps_publish_date :: int
  ps_order :: string
  ps_username :: "string option"
  ps_name :: "string option"
  ps_active :: bool

text \<open>
  Field \<open>keywords\<close>: the length constraints of \<open>Field(..., min_length=1, max_length=200)\<close>
  are checked first, then \<open>validate_keywords\<close> runs on the value.
\<close>

definition validate_keywords :: "string \<Rightarrow> field_error + string" where
  "validate_keywords v =
     (if length v < 1 then Inl string_too_short
      else if length v > 200 then Inl string_too_long
      else if strip v = [] then Inl keywords_blank
      else Inr (strip v))"

definition validate_min_price :: "price option \<Rightarrow> field_error + price option" where
  "validate_min_price v =
     (case v of None \<Rightarrow> Inr None
      | Some p \<Rightarrow> if p < 0 then Inl min_price_negative else Inr (Some p))"

text \<open>
  Field \<open>max_price\<close>: \<open>ge=0\<close>, then \<open>validate_price_range\<close>, which sees \<open>min_price\<close> in
  \<open>info.data\<close> only when that field passed its own validation.
\<close>

definition validate_price_range ::
  "(field_error + price option) \<Rightarrow> price option \<Rightarrow> field_error + price option" where
  "validate_price_range min_validated v =
     (case v of None \<Rightarrow> Inr None
      | Some p \<Rightarrow>
          if p < 0 then Inl max_price_negative
          else (case min_validated of
                  Inr (Some m) \<Rightarrow> if p \<le> m then Inl max_price_not_above_min else Inr (Some p)
                | _ \<Rightarrow> Inr (Some p)))"

fun errors_of :: "field_error + 'a \<Rightarrow> field_error list" where
  "errors_of (Inl e) = [e]"
| "errors_of (Inr _) = []"

definition ProductSearch_new ::
  "string \<Rightarrow> string \<Rightarrow> price option \<Rightarrow> price option \<Rightarrow> string option \<Rightarrow> string \<Rightarrow> int \<Rightarrow>
   string \<Rightarrow> string option \<Rightarrow> string option \<Rightarrow> bool \<Rightarrow> exn + ProductSearch" where
  "ProductSearch_new chat_id keywords min_price max_price category_ids distance publish_date
      order username name active =
     (let k = validate_keywords keywords;
          lo = validate_min_price min_price;
          hi = validate_price_range lo max_price
      in case (k, lo, hi) of
           (Inr k', Inr lo', Inr hi') \<Rightarrow>
             Inr \<lparr>ps_chat_id = chat_id, ps_keywords = k', ps_min_price = lo',
                  ps_max_price = hi', ps_category_ids = category_ids,
                  ps_distance = distance, ps_publish_date = publish_date, ps_order = order,
                  ps_username = username, ps_name = name, ps_active = active\<rparr>
         | _ \<Rightarrow> Inl (ValidationError (errors_of k @ errors_of lo @ errors_of hi)))"

text \<open>
  The observation note written by the tracker is always the text
  \<open>Precio anterior: <price>\<close> followed by the euro sign; it is kept as the price it carries.
\<close>

datatype observation = Precio_anterior price

record Product =
  p_item_id :: string
  p_chat_id :: string
  p_title :: string
  p_price :: price
  p_url :: string
  p_user_id :: string
  p_publish_date :: "int option"
  p_observations :: "observation option"
  p_created_at :: datetime

definition validate_title :: "string \<Rightarrow> field_error + string" where
  "validate_title v = (if strip v = [] then Inl title_blank else Inr (strip v))"

definition validate_price :: "price \<Rightarrow> field_error + price" where
  "validate_price v = (if v \<le> 0 then Inl price_not_positive else Inr v)"

text \<open>\<open>created_at\<close> defaults to \<open>datetime.now()\<close>: the constructor is given the clock.\<close>

definition Product_new ::
  "datetime \<Rightarrow> string \<Rightarrow> string \<Rightarrow> string \<Rightarrow> price \<Rightarrow> string \<Rightarrow> string \<Rightarrow> int option \<Rightarrow>
   observation option \<Rightarrow> exn + Product" where
  "Product_new now item_id chat_id title price url user_id publish_date observations =
     (let t = validate_title title; p = validate_price price
      in case (t, p) of
           (Inr t', Inr p') \<Rightarrow>
             Inr \<lparr>p_item_id = item_id, p_chat_id = chat_id, p_title = t', p_price = p',
                  p_url = url, p_user_id = user_id, p_publish_date = publish_date,
                  p_observations = observations, p_created_at = now\<rparr>
         | _ \<Rightarrow> Inl (ValidationError (errors_of t @ errors_of p)))"

record SearchResult =
  sr_id :: string
  sr_title :: string
  sr_price :: price
  sr_web_slug :: string
  sr_user_id :: string

definition SearchResult_new ::
  "string \<Rightarrow> string \<Rightarrow> price \<Rightarrow> string \<Rightarrow> string \<Rightarrow> exn + SearchResult" where
  "SearchResult_new ident title price web_slug user_id =
     (case validate_price price of
        Inl e \<Rightarrow> Inl (ValidationError [e])
      | Inr p \<Rightarrow> Inr \<lparr>sr_id = ident, sr_title = title, sr_price = p, sr_web_slug = web_slug,
                     sr_user_id = user_id\<rparr>)"

section \<open>Storage (database.py)\<close>

text \<open>
  Table \<open>products\<close> has primary key \<open>(item_id, chat_id)\<close>; table \<open>product_searches\<close> has an
  autoincrement \<open>id\<close> and the constraint \<open>UNIQUE(chat_id, keywords)\<close>. A table is the list of
  its rows in insertion order. The columns \<open>chat_id\<close> to \<open>active\<close> of a search row are kept
  together as the \<open>ProductSearch\<close> that was written.
\<close>

record product_row =
  pr_item_id :: string
  pr_chat_id :: string
  pr_title :: string
  pr_price :: price
  pr_url :: string
  pr_user_id :: string
  pr_publish_date :: "int option"
  pr_observations :: "observation option"
  pr_created_at :: datetime
  pr_updated_at :: datetime

record search_row =
  row_id :: nat
  row_search :: ProductSearch
  row_created_at :: datetime
  row_updated_at :: datetime

record DatabaseManager =
  products :: "product_row list"
  product_searches :: "search_row list"
  search_seq :: nat

text \<open>\<open>CURRENT_TIMESTAMP\<close> has a resolution of one second.\<close>

definition CURRENT_TIMESTAMP :: "datetime \<Rightarrow> datetime" where
  "CURRENT_TIMESTAMP now = (now div 1000000) * 1000000"

definition search_key :: "search_row \<Rightarrow> string \<times> string" where
  "search_key r = (ps_chat_id (row_search r), ps_keywords (row_search r))"

definition product_key :: "product_row \<Rightarrow> string \<times> string" where
  "product_key r = (pr_item_id r, pr_chat_id r)"

text \<open>\<open>INSERT OR REPLACE\<close>: the conflicting row is deleted, the new row is inserted.\<close>

definition add_search_db :: "datetime \<Rightarrow> ProductSearch \<Rightarrow> DatabaseManager \<Rightarrow> bool \<times> DatabaseManager" where
  "add_search_db now search db =
     (True,
      db\<lparr>product_searches :=
            filter (\<lambda>r. search_key r \<noteq> (ps_chat_id search, ps_keywords search))
              (product_searches db)
            @ [\<lparr>row_id = Suc (search_seq db), row_search = search,
                 row_created_at = CURRENT_TIMESTAMP now, row_updated_at = now\<rparr>],
          search_seq := Suc (search_seq db)\<rparr>)"

text \<open>
  Reading searches builds a \<open>ProductSearch\<close> from every selected row, inside one \<open>try\<close>:
  a row that fails validation makes the whole call return the empty list.
\<close>

definition row_to_search :: "search_row \<Rightarrow> exn + ProductSearch" where
  "row_to_search r =
     (let s = row_search r
      in ProductSearch_new (ps_chat_id s) (ps_keywords s) (ps_min_price s) (ps_max_price s)
           (ps_category_ids s) (ps_distance s) (ps_publish_date s) (ps_order s)
           (ps_username s) (ps_name s) (ps_active s))"

fun collect :: "(exn + 'a) list \<Rightarrow> exn + 'a list" where
  "collect [] = Inr []"
| "collect (Inl e # _) = Inl e"
| "collect (Inr x # xs) = (case collect xs of Inl e \<Rightarrow> Inl e | Inr ys \<Rightarrow> Inr (x # ys))"

text \<open>\<open>ORDER BY created_at DESC\<close>; rows created in the same second keep table order.\<close>

definition order_by_created_at_desc :: "search_row list \<Rightarrow> search_row list" where
  "order_by_created_at_desc rows = sort_key (\<lambda>r. - row_created_at r) rows"

definition get_all_active_searches :: "DatabaseManager \<Rightarrow> ProductSearch list" where
  "get_all_active_searches db =
     (case collect (map row_to_search (order_by_created_at_desc
              (filter (\<lambda>r. ps_active (row_search r)) (product_searches db)))) of
        Inl e \<Rightarrow> []
      | Inr searches \<Rightarrow> searches)"

definition deactivate_search :: "datetime \<Rightarrow> string \<Rightarrow> string \<Rightarrow> DatabaseManager \<Rightarrow> bool \<times> DatabaseManager" where
  "deactivate_search now chat_id keywords db =
     (True,
      db\<lparr>product_searches :=
            map (\<lambda>r. if search_key r = (chat_id, keywords)
                      then r\<lparr>row_search := (row_search r)\<lparr>ps_active := False\<rparr>,
                             row_updated_at := now\<rparr>
                      else r)
              (product_searches db)\<rparr>)"

text \<open>
  \<open>add_product\<close> writes the product's columns and \<open>updated_at\<close>; \<open>created_at\<close> is the
  column default. \<open>row_of\<close> is the row that the \<open>INSERT\<close> stores.
\<close>

definition row_of :: "datetime \<Rightarrow> Product \<Rightarrow> product_row" where
  "row_of now product =
     \<lparr>pr_item_id = p_item_id product, pr_chat_id = p_chat_id product,
      pr_title = p_title product, pr_price = p_price product,
      pr_url = p_url product, pr_user_id = p_user_id product,
      pr_publish_date = p_publish_date product,
      pr_observations = p_observations product,
      pr_created_at = CURRENT_TIMESTAMP now, pr_updated_at = now\<rparr>"

definition add_product :: "datetime \<Rightarrow> Product \<Rightarrow> DatabaseManager \<Rightarrow> bool \<times> DatabaseManager" where
  "add_product now product db =
     (True,
      db\<lparr>products :=
            filter (\<lambda>r. product_key r \<noteq> (p_item_id product, p_chat_id product)) (products db)
            @ [row_of now product]\<rparr>)"

text \<open>
  \<open>SELECT * FROM products WHERE item_id = ? AND chat_id = ?\<close> followed by \<open>fetchone()\<close>.
\<close>

definition select_product :: "string \<Rightarrow> string \<Rightarrow> DatabaseManager \<Rightarrow> product_row option" where
  "select_product item_id chat_id db =
     find (\<lambda>r. pr_item_id r = item_id \<and> pr_chat_id r = chat_id) (products db)"

text \<open>
  \<open>get_product\<close> builds a \<open>Product\<close> from the row it fetched; the validators run again, and
  a row they reject is reported as absent (the \<open>except\<close> branch returns \<open>None\<close>).
\<close>

definition get_product :: "datetime \<Rightarrow> string \<Rightarrow> string \<Rightarrow> DatabaseManager \<Rightarrow> Product option" where
  "get_product now item_id chat_id db =
     (case select_product item_id chat_id db of
        None \<Rightarrow> None
      | Some row \<Rightarrow>
          (case Product_new now (pr_item_id row) (pr_chat_id row) (pr_title row) (pr_price row)
                  (pr_url row) (pr_user_id row) (pr_publish_date row) (pr_observations row) of
             Inl e \<Rightarrow> None
           | Inr p \<Rightarrow> Some p))"

text \<open>The \<open>UPDATE\<close> of \<open>update_product_price\<close> selects its rows by \<open>item_id\<close> alone.\<close>

definition update_product_price ::
  "datetime \<Rightarrow> string \<Rightarrow> price \<Rightarrow> observation option \<Rightarrow> DatabaseManager \<Rightarrow> bool \<times> DatabaseManager" where
  "update_product_price now item_id new_price observations db =
     (True,
      db\<lparr>products :=
            map (\<lambda>r. if pr_item_id r = item_id
                      then r\<lparr>pr_price := new_price, pr_observations := observations,
                             pr_updated_at := now\<rparr>
                      else r)
              (products db)\<rparr>)"



section \<open>Notification gateway (notification_service.py)\<close>

text \<open>
  The Telegram API is the environment: \<open>post\<close> gives the outcome of the \<open>requests.post\<close>
  call that would be the next entry of the gateway's log, either a status code or an
  exception. A message is kept as the data it is formatted from. The log \<open>attempts\<close> is not
  a field of the source: it records every call of \<open>_send_telegram_message\<close> in order, with
  \<open>Rate_limited\<close> when the call returned before contacting the transport.
  The leading underscore of private method names is dropped.
\<close>

datatype http_response = Status int | Raised

datatype outcome = Rate_limited | Posted http_response

datatype message =
    New_product_msg Product
  | Price_drop_msg Product price
  | Search_added_msg string "price option" "price option"
  | Search_removed_msg string
  | Error_msg exn

record NotificationService =
  notification_count :: int
  last_reset :: datetime
  attempts :: "(string \<times> message \<times> outcome) list"

text \<open>
  Configuration (config.py) and the two external collaborators: the messaging transport
  and the marketplace query, which returns a list of results or raises.
\<close>

record env =
  MAX_NOTIFICATIONS_PER_HOUR :: int
  ITEM_CLEANUP_HOURS :: int
  post :: "nat \<Rightarrow> string \<Rightarrow> message \<Rightarrow> http_response"
  search_products_playwright :: "ProductSearch \<Rightarrow> exn + SearchResult list"

definition check_rate_limit :: "env \<Rightarrow> datetime \<Rightarrow> NotificationService \<Rightarrow> bool \<times> NotificationService" where
  "check_rate_limit e now ns =
     (let ns1 = (if now - last_reset ns > 3600 * 1000000
                 then ns\<lparr>notification_count := 0, last_reset := now\<rparr> else ns)
      in if notification_count ns1 \<ge> MAX_NOTIFICATIONS_PER_HOUR e then (False, ns1)
         else (True, ns1))"

definition log_attempt :: "string \<Rightarrow> message \<Rightarrow> outcome \<Rightarrow> NotificationService \<Rightarrow> NotificationService" where
  "log_attempt chat_id msg out ns = ns\<lparr>attempts := attempts ns @ [(chat_id, msg, out)]\<rparr>"

definition send_telegram_message ::
  "env \<Rightarrow> datetime \<Rightarrow> string \<Rightarrow> message \<Rightarrow> NotificationService \<Rightarrow> bool \<times> NotificationService" where
  "send_telegram_message e now chat_id msg ns =
     (case check_rate_limit e now ns of
        (False, ns1) \<Rightarrow> (False, log_attempt chat_id msg Rate_limited ns1)
      | (True, ns1) \<Rightarrow>
          (let response = post e (length (attempts ns1)) chat_id msg
           in case response of
                Status code \<Rightarrow>
                  if code = 200
                  then (True, log_attempt chat_id msg (Posted response)
                                (ns1\<lparr>notification_count := notification_count ns1 + 1\<rparr>))
                  else (False, log_attempt chat_id msg (Posted response) ns1)
              | Raised \<Rightarrow> (False, log_attempt chat_id msg (Posted response) ns1)))"

definition notify_new_product :: "env \<Rightarrow> datetime \<Rightarrow> Product \<Rightarrow> NotificationService \<Rightarrow> bool \<times> NotificationService" where
  "notify_new_product e now product ns =
     send_telegram_message e now (p_chat_id product) (New_product_msg product) ns"

definition notify_price_drop ::
  "env \<Rightarrow> datetime \<Rightarrow> Product \<Rightarrow> price \<Rightarrow> NotificationService \<Rightarrow> bool \<times> NotificationService" where
  "notify_price_drop e now product old_price ns =
     send_telegram_message e now (p_chat_id product) (Price_drop_msg product old_price) ns"

definition notify_search_added ::
  "env \<Rightarrow> datetime \<Rightarrow> string \<Rightarrow> string \<Rightarrow> price option \<Rightarrow> price option \<Rightarrow> NotificationService \<Rightarrow>
   bool \<times> NotificationService" where
  "notify_search_added e now chat_id keywords min_price max_price ns =
     send_telegram_message e now chat_id (Search_added_msg keywords min_price max_price) ns"

definition notify_search_removed ::
  "env \<Rightarrow> datetime \<Rightarrow> string \<Rightarrow> string \<Rightarrow> NotificationService \<Rightarrow> bool \<times> NotificationService" where
  "notify_search_removed e now chat_id keywords ns =
     send_telegram_message e now chat_id (Search_removed_msg keywords) ns"

definition send_error_message ::
  "env \<Rightarrow> datetime \<Rightarrow> string \<Rightarrow> exn \<Rightarrow> NotificationService \<Rightarrow> bool \<times> NotificationService" where
  "send_error_message e now chat_id error_message ns =
     send_telegram_message e now chat_id (Error_msg error_message) ns"

text \<open>A run of sends, each at its own instant; the results are returned in order.\<close>

fun send_all ::
  "env \<Rightarrow> (datetime \<times> string \<times> message) list \<Rightarrow> NotificationService \<Rightarrow> bool list \<times> NotificationService" where
  "send_all e [] ns = ([], ns)"
| "send_all e ((now, chat_id, msg) # rest) ns =
     (case send_telegram_message e now chat_id msg ns of
        (ok, ns1) \<Rightarrow> (case send_all e rest ns1 of (oks, ns2) \<Rightarrow> (ok # oks, ns2)))"

definition confirmed :: "(string \<times> message \<times> outcome) list \<Rightarrow> nat" where
  "confirmed entries = length (filter (\<lambda>(c, m, out). out = Posted (Status 200)) entries)"

definition contacted :: "(string \<times> message \<times> outcome) list \<Rightarrow> nat" where
  "contacted entries = length (filter (\<lambda>(c, m, out). out \<noteq> Rate_limited) entries)"

section \<open>Tracking engine (product_tracker.py)\<close>

text \<open>
  The tracker owns the database and the notification service. \<open>clock\<close> is the wall clock
  that \<open>datetime.now()\<close> reads; an operation runs at one instant and only \<open>time.sleep\<close>
  advances the clock.
\<close>

record ProductTracker =
  db :: DatabaseManager
  notification_service :: NotificationService
  clock :: datetime

definition sleep :: "int \<Rightarrow> ProductTracker \<Rightarrow> ProductTracker" where
  "sleep seconds t = t\<lparr>clock := clock t + seconds * 1000000\<rparr>"

definition handle_new_product :: "env \<Rightarrow> SearchResult \<Rightarrow> string \<Rightarrow> ProductTracker \<Rightarrow> ProductTracker" where
  "handle_new_product e result chat_id t =
     (case Product_new (clock t) (sr_id result) chat_id (sr_title result) (sr_price result)
             (sr_web_slug result) (sr_user_id result) None None of
        Inl ex \<Rightarrow> t
      | Inr product \<Rightarrow>
          (case add_product (clock t) product (db t) of
             (True, db') \<Rightarrow>
               t\<lparr>db := db',
                 notification_service :=
                   snd (notify_new_product e (clock t) product (notification_service t))\<rparr>
           | (False, db') \<Rightarrow> t\<lparr>db := db'\<rparr>))"

definition handle_existing_product ::
  "env \<Rightarrow> SearchResult \<Rightarrow> Product \<Rightarrow> ProductTracker \<Rightarrow> ProductTracker" where
  "handle_existing_product e result existing_product t =
     (if sr_price result < p_price existing_product
      then (case Product_new (clock t) (sr_id result) (p_chat_id existing_product)
                   (sr_title result) (sr_price result) (sr_web_slug result) (sr_user_id result)
                   None (Some (Precio_anterior (p_price existing_product))) of
              Inl ex \<Rightarrow> t
            | Inr updated_product \<Rightarrow>
                (case update_product_price (clock t) (sr_id result) (sr_price result)
                        (Some (Precio_anterior (p_price existing_product))) (db t) of
                   (True, db') \<Rightarrow>
                     t\<lparr>db := db',
                       notification_service :=
                         snd (notify_price_drop e (clock t) updated_product
                                (p_price existing_product) (notification_service t))\<rparr>
                 | (False, db') \<Rightarrow> t\<lparr>db := db'\<rparr>))
      else t)"

definition process_product_result ::
  "env \<Rightarrow> SearchResult \<Rightarrow> string \<Rightarrow> ProductTracker \<Rightarrow> ProductTracker" where
  "process_product_result e result chat_id t =
     (case get_product (clock t) (sr_id result) chat_id (db t) of
        None \<Rightarrow> handle_new_product e result chat_id t
      | Some existing_product \<Rightarrow> handle_existing_product e result existing_product t)"

text \<open>The loop over the results of one search, and the search itself.\<close>

fun process_results :: "env \<Rightarrow> string \<Rightarrow> SearchResult list \<Rightarrow> ProductTracker \<Rightarrow> ProductTracker" where
  "process_results e chat_id [] t = t"
| "process_results e chat_id (result # rest) t =
     process_results e chat_id rest (process_product_result e result chat_id t)"

definition process_search :: "env \<Rightarrow> ProductSearch \<Rightarrow> ProductTracker \<Rightarrow> ProductTracker" where
  "process_search e search t =
     (case search_products_playwright e search of
        Inl ex \<Rightarrow> t
      | Inr search_results \<Rightarrow>
          if search_results = [] then t
          else process_results e (ps_chat_id search) search_results t)"

text \<open>The loop over the active searches, with its pause of two seconds after each.\<close>

fun process_searches :: "env \<Rightarrow> ProductSearch list \<Rightarrow> ProductTracker \<Rightarrow> ProductTracker" where
  "process_searches e [] t = t"
| "process_searches e (search # rest) t =
     process_searches e rest (sleep 2 (process_search e search t))"

definition process_all_searches :: "env \<Rightarrow> ProductTracker \<Rightarrow> ProductTracker" where
  "process_all_searches e t =
     (let searches = get_all_active_searches (db t)
      in if searches = [] then t else process_searches e searches t)"

definition add_search ::
  "env \<Rightarrow> string \<Rightarrow> string \<Rightarrow> price option \<Rightarrow> price option \<Rightarrow> string option \<Rightarrow> string option \<Rightarrow>
   string option \<Rightarrow> ProductTracker \<Rightarrow> bool \<times> ProductTracker" where
  "add_search e chat_id keywords min_price max_price category_ids username name t =
     (case ProductSearch_new chat_id keywords min_price max_price category_ids ''400'' 24
             ''newest'' username name True of
        Inl ex \<Rightarrow>
          (False,
           t\<lparr>notification_service :=
               snd (send_error_message e (clock t) chat_id ex (notification_service t))\<rparr>)
      | Inr search \<Rightarrow>
          (case add_search_db (clock t) search (db t) of
             (True, db') \<Rightarrow>
               (True,
                t\<lparr>db := db',
                  notification_service :=
                    snd (notify_search_added e (clock t) chat_id keywords min_price max_price
                           (notification_service t))\<rparr>)
           | (False, db') \<Rightarrow> (False, t\<lparr>db := db'\<rparr>)))"

definition remove_search :: "env \<Rightarrow> string \<Rightarrow> string \<Rightarrow> ProductTracker \<Rightarrow> bool \<times> ProductTracker" where
  "remove_search e chat_id keywords t =
     (case deactivate_search (clock t) chat_id keywords (db t) of
        (True, db') \<Rightarrow>
          (True,
           t\<lparr>db := db',
             notification_service :=
               snd (notify_search_removed e (clock t) chat_id keywords
                      (notification_service t))\<rparr>)
      | (False, db') \<Rightarrow> (False, t\<lparr>db := db'\<rparr>))"

text \<open>
  The \<open>Product\<close> that \<open>_handle_new_product\<close> builds from a candidate when the validators
  accept it; \<open>_handle_existing_product\<close> builds the same with the observation note set.
\<close>

definition candidate_product :: "datetime \<Rightarrow> SearchResult \<Rightarrow> string \<Rightarrow> Product" where
  "candidate_product now result chat_id =
     \<lparr>p_item_id = sr_id result, p_chat_id = chat_id, p_title = strip (sr_title result),
      p_price = sr_price result, p_url = sr_web_slug result, p_user_id = sr_user_id result,
      p_publish_date = None, p_observations = None, p_created_at = now\<rparr>"

text \<open>The entries of the gateway's log that are new-listing messages.\<close>

fun is_new_product :: "string \<times> message \<times> outcome \<Rightarrow> bool" where
  "is_new_product (chat_id, New_product_msg product, out) = True"
| "is_new_product (chat_id, msg, out) = False"

section \<open>Example data\<close>

definition env0 :: env where
  "env0 = \<lparr>MAX_NOTIFICATIONS_PER_HOUR = 50, ITEM_CLEANUP_HOURS = 24,
            post = (\<lambda>n chat_id msg. Status 200),
            search_products_playwright = (\<lambda>search. Inr [])\<rparr>"

definition row_old :: product_row where
  "row_old = \<lparr>pr_item_id = ''X1'', pr_chat_id = ''A'', pr_title = ''red shoes'', pr_price = 45,
               pr_url = ''red-shoes'', pr_user_id = ''u1'', pr_publish_date = None,
               pr_observations = None, pr_created_at = 0, pr_updated_at = 0\<rparr>"

definition row_recent :: product_row where
  "row_recent = \<lparr>pr_item_id = ''X2'', pr_chat_id = ''B'', pr_title = ''blue hat'', pr_price = 12,
                  pr_url = ''blue-hat'', pr_user_id = ''u2'', pr_publish_date = None,
                  pr_observations = None, pr_created_at = 50000000000,
                  pr_updated_at = 50000000000\<rparr>"

definition db_sweep :: DatabaseManager where
  "db_sweep = \<lparr>products = [row_old, row_recent], product_searches = [], search_seq = 0\<rparr>"

definition ns_full :: NotificationService where
  "ns_full = \<lparr>notification_count = 50, last_reset = 0, attempts = []\<rparr>"

definition ns_almost :: NotificationService where
  "ns_almost = \<lparr>notification_count = 49, last_reset = 0, attempts = []\<rparr>"

definition tracker0 :: ProductTracker where
  "tracker0 = \<lparr>db = db_sweep,
                notification_service = \<lparr>notification_count = 0, last_reset = 0, attempts = []\<rparr>,
                clock = 60000000\<rparr>"

definition row_B :: product_row where
  "row_B = \<lparr>pr_item_id = ''X1'', pr_chat_id = ''B'', pr_title = ''red shoes'', pr_price = 100,
             pr_url = ''red-shoes'', pr_user_id = ''u1'', pr_publish_date = None,
             pr_observations = None, pr_created_at = 0, pr_updated_at = 0\<rparr>"

definition tracker_two :: ProductTracker where
  "tracker_two = \<lparr>db = \<lparr>products = [row_old, row_B], product_searches = [], search_seq = 0\<rparr>,
                   notification_service = \<lparr>notification_count = 0, last_reset = 0, attempts = []\<rparr>,
                   clock = 60000000\<rparr>"

definition cand_drop :: SearchResult where
  "cand_drop = \<lparr>sr_id = ''X1'', sr_title = ''red shoes'', sr_price = 30,
                 sr_web_slug = ''red-shoes'', sr_user_id = ''u1''\<rparr>"

definition cand_same :: SearchResult where
  "cand_same = \<lparr>sr_id = ''X1'', sr_title = ''red shoes'', sr_price = 45,
                 sr_web_slug = ''red-shoes'', sr_user_id = ''u1''\<rparr>"

definition cand_drop_blank :: SearchResult where
  "cand_drop_blank = \<lparr>sr_id = ''X1'', sr_title = ''   '', sr_price = 30,
                       sr_web_slug = ''red-shoes'', sr_user_id = ''u1''\<rparr>"

definition cand_new :: SearchResult where
  "cand_new = \<lparr>sr_id = ''X9'', sr_title = ''green bike'', sr_price = 80,
                sr_web_slug = ''green-bike'', sr_user_id = ''u9''\<rparr>"

definition cand_new_blank :: SearchResult where
  "cand_new_blank = \<lparr>sr_id = ''X9'', sr_title = ''   '', sr_price = 80,
                      sr_web_slug = ''green-bike'', sr_user_id = ''u9''\<rparr>"

definition existing0 :: Product where
  "existing0 = \<lparr>p_item_id = ''X1'', p_chat_id = ''A'', p_title = ''red shoes'', p_price = 45,
                 p_url = ''red-shoes'', p_user_id = ''u1'', p_publish_date = None,
                 p_observations = None, p_created_at = 60000000\<rparr>"

definition search_bad :: ProductSearch where
  "search_bad = \<lparr>ps_chat_id = ''B'', ps_keywords = ''bad'', ps_min_price = None,
                  ps_max_price = None, ps_category_ids = None, ps_distance = ''400'',
                  ps_publish_date = 24, ps_order = ''newest'', ps_username = None,
                  ps_name = None, ps_active = True\<rparr>"

definition search_ok :: ProductSearch where
  "search_ok = \<lparr>ps_chat_id = ''A'', ps_keywords = ''bike'', ps_min_price = None,
                 ps_max_price = None, ps_category_ids = None, ps_distance = ''400'',
                 ps_publish_date = 24, ps_order = ''newest'', ps_username = None,
                 ps_name = None, ps_active = True\<rparr>"

definition env1 :: env where
  "env1 = \<lparr>MAX_NOTIFICATIONS_PER_HOUR = 50, ITEM_CLEANUP_HOURS = 24,
            post = (\<lambda>n chat_id msg. if n = 0 then Raised else Status 200),
            search_products_playwright =
              (\<lambda>search. if ps_keywords search = ''bad'' then Inl WallapopAPIError
                         else Inr [cand_new_blank, cand_new])\<rparr>"

definition search_shoes :: ProductSearch where
  "search_shoes = \<lparr>ps_chat_id = ''A'', ps_keywords = ''shoes'', ps_min_price = Some 10,
                    ps_max_price = Some 50, ps_category_ids = None, ps_distance = ''400'',
                    ps_publish_date = 24, ps_order = ''newest'', ps_username = None,
                    ps_name = None, ps_active = True\<rparr>"

definition tracker_shoes :: ProductTracker where
  "tracker_shoes =
     tracker0\<lparr>db := db_sweep\<lparr>product_searches :=
                        [\<lparr>row_id = 1, row_search = search_shoes\<lparr>ps_max_price := Some 40\<rparr>,
                          row_created_at = 0, row_updated_at = 0\<rparr>],
                      search_seq := 1\<rparr>\<rparr>"

section \<open>Facts about trimming\<close>

lemma strip_ends:
  assumes "strip s \<noteq> []"
  shows "\<not> isspace (hd (strip s)) \<and> \<not> isspace (last (strip s))"
proof -
  let ?u = "dropWhile isspace s"
  let ?v = "dropWhile isspace (rev ?u)"
  from assms have v: "?v \<noteq> []" by (simp add: strip_def)
  have u: "?u \<noteq> []"
  proof
    assume "?u = []"
    then have "?v = []" by (simp only: rev.simps dropWhile.simps)
    with v show False by (rule notE)
  qed
  from v have "\<not> isspace (hd ?v)" by (rule hd_dropWhile)
  with v have l: "\<not> isspace (last (strip s))" by (simp add: strip_def last_rev)
  have "?v = drop (length (takeWhile isspace (rev ?u))) (rev ?u)"
    by (simp add: dropWhile_eq_drop)
  moreover from v have "length (takeWhile isspace (rev ?u)) < length (rev ?u)"
    by (metis calculation drop_all not_le_imp_less)
  ultimately have "last ?v = last (rev ?u)" by (metis last_drop)
  also have "\<dots> = hd ?u" using u by (simp add: last_rev)
  finally have "last ?v = hd ?u" .
  moreover from u have "\<not> isspace (hd ?u)" by (rule hd_dropWhile)
  ultimately have "\<not> isspace (hd (strip s))" using v by (simp add: strip_def hd_rev)
  with l show ?thesis by simp
qed

lemma strip_fixed:
  assumes "s = [] \<or> (\<not> isspace (hd s) \<and> \<not> isspace (last s))"
  shows "strip s = s"
proof (cases "s = []")
  case True
  then show ?thesis by (simp add: strip_def)
next
  case False
  with assms have h: "\<not> isspace (hd s)" and l: "\<not> isspace (last s)" by auto
  from False h have "dropWhile isspace s = s" by (simp add: dropWhile_eq_self_iff)
  moreover from False l have "dropWhile isspace (rev s) = rev s"
    by (simp add: dropWhile_eq_self_iff hd_rev)
  ultimately show ?thesis by (simp add: strip_def)
qed

lemma strip_idem: "strip (strip s) = strip s"
  using strip_ends [of s] strip_fixed [of "strip s"] by blast

section \<open>Facts about the notification gateway\<close>

lemma send_attempts:
  "\<exists>out. attempts (snd (send_telegram_message e now c m ns)) = attempts ns @ [(c, m, out)]
       \<and> (fst (send_telegram_message e now c m ns) \<longleftrightarrow> out = Posted (Status 200))"
  by (auto simp: send_telegram_message_def check_rate_limit_def log_attempt_def Let_def
           split: prod.splits http_response.splits if_splits)

lemma send_count:
  "notification_count (snd (send_telegram_message e now c m ns)) =
     notification_count (snd (check_rate_limit e now ns))
       + (if fst (send_telegram_message e now c m ns) then 1 else 0)"
  by (simp add: send_telegram_message_def log_attempt_def Let_def
        split: prod.splits bool.splits http_response.splits)

lemma send_success_iff:
  "fst (send_telegram_message e now c m ns) \<longleftrightarrow>
     fst (check_rate_limit e now ns)
     \<and> post e (length (attempts ns)) c m = Status 200"
  by (cases "post e (length (attempts ns)) c m")
     (auto simp: send_telegram_message_def check_rate_limit_def log_attempt_def Let_def)

lemma check_rate_limit_in_window:
  "now - last_reset ns \<le> 3600 * 1000000 \<Longrightarrow>
   check_rate_limit e now ns = (\<not> MAX_NOTIFICATIONS_PER_HOUR e \<le> notification_count ns, ns)"
  by (simp add: check_rate_limit_def Let_def)

lemma send_limited:
  assumes "now - last_reset ns \<le> 3600 * 1000000"
    and "MAX_NOTIFICATIONS_PER_HOUR e \<le> notification_count ns"
  shows "send_telegram_message e now c m ns = (False, log_attempt c m Rate_limited ns)"
  using assms by (simp add: send_telegram_message_def check_rate_limit_in_window)

lemma send_posted:
  assumes "now - last_reset ns \<le> 3600 * 1000000"
    and "notification_count ns < MAX_NOTIFICATIONS_PER_HOUR e"
  shows "send_telegram_message e now c m ns =
     (post e (length (attempts ns)) c m = Status 200,
      log_attempt c m (Posted (post e (length (attempts ns)) c m))
        (if post e (length (attempts ns)) c m = Status 200
         then ns\<lparr>notification_count := notification_count ns + 1\<rparr> else ns))"
  using assms
  by (cases "post e (length (attempts ns)) c m")
     (simp_all add: send_telegram_message_def check_rate_limit_in_window Let_def)

lemma send_in_window:
  assumes w: "now - last_reset ns \<le> 3600 * 1000000"
  shows "\<exists>out. attempts (snd (send_telegram_message e now c m ns)) = attempts ns @ [(c, m, out)]
       \<and> (fst (send_telegram_message e now c m ns) \<longleftrightarrow> out = Posted (Status 200))
       \<and> (out \<noteq> Rate_limited \<longleftrightarrow> notification_count ns < MAX_NOTIFICATIONS_PER_HOUR e)
       \<and> last_reset (snd (send_telegram_message e now c m ns)) = last_reset ns
       \<and> notification_count (snd (send_telegram_message e now c m ns)) =
           notification_count ns + (if out = Posted (Status 200) then 1 else 0)"
proof (cases "notification_count ns < MAX_NOTIFICATIONS_PER_HOUR e")
  case True
  show ?thesis
    by (rule exI [of _ "Posted (post e (length (attempts ns)) c m)"])
       (simp add: send_posted [OF w True] log_attempt_def True)
next
  case False
  then have ge: "MAX_NOTIFICATIONS_PER_HOUR e \<le> notification_count ns" by simp
  show ?thesis
    by (rule exI [of _ Rate_limited]) (simp add: send_limited [OF w ge] log_attempt_def False)
qed

lemma confirmed_append: "confirmed (xs @ ys) = confirmed xs + confirmed ys"
  by (simp add: confirmed_def)

lemma contacted_append: "contacted (xs @ ys) = contacted xs + contacted ys"
  by (simp add: contacted_def)

lemma send_all_in_window:
  assumes "\<forall>r \<in> set reqs. fst r - last_reset ns \<le> 3600 * 1000000"
  shows "\<exists>new. attempts (snd (send_all e reqs ns)) = attempts ns @ new
       \<and> length new = length reqs
       \<and> last_reset (snd (send_all e reqs ns)) = last_reset ns
       \<and> notification_count (snd (send_all e reqs ns)) = notification_count ns + int (confirmed new)
       \<and> confirmed new = length (filter id (fst (send_all e reqs ns)))
       \<and> confirmed new \<le> contacted new
       \<and> (notification_count ns \<le> MAX_NOTIFICATIONS_PER_HOUR e \<longrightarrow>
            notification_count (snd (send_all e reqs ns)) \<le> MAX_NOTIFICATIONS_PER_HOUR e)
       \<and> (MAX_NOTIFICATIONS_PER_HOUR e \<le> notification_count ns \<longrightarrow> contacted new = 0)"
  using assms
proof (induction reqs arbitrary: ns)
  case Nil
  show ?case by (simp add: confirmed_def contacted_def)
next
  case (Cons req reqs)
  obtain now c m where req: "req = (now, c, m)" by (cases req) auto
  let ?r = "send_telegram_message e now c m ns"
  from Cons.prems req have w: "now - last_reset ns \<le> 3600 * 1000000" by simp
  from send_in_window [OF w, of e c m] obtain out where
    a: "attempts (snd ?r) = attempts ns @ [(c, m, out)]" and
    ok: "fst ?r \<longleftrightarrow> out = Posted (Status 200)" and
    rl: "out \<noteq> Rate_limited \<longleftrightarrow> notification_count ns < MAX_NOTIFICATIONS_PER_HOUR e" and
    lr: "last_reset (snd ?r) = last_reset ns" and
    cnt: "notification_count (snd ?r) = notification_count ns + (if out = Posted (Status 200) then 1 else 0)"
    by blast
  from Cons.prems lr have "\<forall>r \<in> set reqs. fst r - last_reset (snd ?r) \<le> 3600 * 1000000"
    by simp
  from Cons.IH [OF this] obtain new where
    n1: "attempts (snd (send_all e reqs (snd ?r))) = attempts (snd ?r) @ new" and
    n2: "length new = length reqs" and
    n3: "last_reset (snd (send_all e reqs (snd ?r))) = last_reset (snd ?r)" and
    n4: "notification_count (snd (send_all e reqs (snd ?r))) = notification_count (snd ?r) + int (confirmed new)" and
    n5: "confirmed new = length (filter id (fst (send_all e reqs (snd ?r))))" and
    n6: "confirmed new \<le> contacted new" and
    n7: "notification_count (snd ?r) \<le> MAX_NOTIFICATIONS_PER_HOUR e \<longrightarrow>
            notification_count (snd (send_all e reqs (snd ?r))) \<le> MAX_NOTIFICATIONS_PER_HOUR e" and
    n8: "MAX_NOTIFICATIONS_PER_HOUR e \<le> notification_count (snd ?r) \<longrightarrow> contacted new = 0"
    by blast
  have unfold: "send_all e (req # reqs) ns =
      (fst ?r # fst (send_all e reqs (snd ?r)), snd (send_all e reqs (snd ?r)))"
    by (simp add: req split: prod.splits)
  have c1: "confirmed ((c, m, out) # new) = (if out = Posted (Status 200) then 1 else 0) + confirmed new"
    by (simp add: confirmed_def)
  have c2: "contacted ((c, m, out) # new) = (if out \<noteq> Rate_limited then 1 else 0) + contacted new"
    by (simp add: contacted_def)
  show ?case
  proof (intro exI [of _ "(c, m, out) # new"] conjI)
    show "attempts (snd (send_all e (req # reqs) ns)) = attempts ns @ (c, m, out) # new"
      by (simp add: unfold n1 a)
    show "length ((c, m, out) # new) = length (req # reqs)" by (simp add: n2)
    show "last_reset (snd (send_all e (req # reqs) ns)) = last_reset ns"
      by (simp add: unfold n3 lr)
    show "notification_count (snd (send_all e (req # reqs) ns)) =
            notification_count ns + int (confirmed ((c, m, out) # new))"
      by (simp add: unfold n4 cnt c1)
    show "confirmed ((c, m, out) # new) = length (filter id (fst (send_all e (req # reqs) ns)))"
      using ok by (simp add: unfold c1 n5)
    show "confirmed ((c, m, out) # new) \<le> contacted ((c, m, out) # new)"
      using n6 by (auto simp: c1 c2)
    show "notification_count ns \<le> MAX_NOTIFICATIONS_PER_HOUR e \<longrightarrow>
            notification_count (snd (send_all e (req # reqs) ns)) \<le> MAX_NOTIFICATIONS_PER_HOUR e"
    proof
      assume le: "notification_count ns \<le> MAX_NOTIFICATIONS_PER_HOUR e"
      have "notification_count (snd ?r) \<le> MAX_NOTIFICATIONS_PER_HOUR e"
      proof (cases "out = Posted (Status 200)")
        case True
        with rl have "notification_count ns < MAX_NOTIFICATIONS_PER_HOUR e" by simp
        with cnt True show ?thesis by simp
      next
        case False
        with cnt le show ?thesis by simp
      qed
      with n7 show "notification_count (snd (send_all e (req # reqs) ns)) \<le> MAX_NOTIFICATIONS_PER_HOUR e"
        by (simp add: unfold)
    qed
    show "MAX_NOTIFICATIONS_PER_HOUR e \<le> notification_count ns \<longrightarrow> contacted ((c, m, out) # new) = 0"
    proof
      assume ge: "MAX_NOTIFICATIONS_PER_HOUR e \<le> notification_count ns"
      with rl have o: "out = Rate_limited" by simp
      with cnt have "notification_count (snd ?r) = notification_count ns" by simp
      with ge n8 have "contacted new = 0" by simp
      with o show "contacted ((c, m, out) # new) = 0" unfolding c2 by simp
    qed
  qed
qed

section \<open>Facts about the listing store\<close>

lemma Product_new_ok:
  "strip title \<noteq> [] \<Longrightarrow> 0 < price \<Longrightarrow>
   Product_new now i ch title price u uid pd obs =
     Inr \<lparr>p_item_id = i, p_chat_id = ch, p_title = strip title, p_price = price, p_url = u,
          p_user_id = uid, p_publish_date = pd, p_observations = obs, p_created_at = now\<rparr>"
  by (simp add: Product_new_def validate_title_def validate_price_def)

lemma Product_new_fail:
  "strip title = [] \<or> price \<le> 0 \<Longrightarrow>
   \<exists>errs. Product_new now i ch title price u uid pd obs = Inl (ValidationError errs)"
  by (auto simp: Product_new_def validate_title_def validate_price_def)

lemma select_product_SomeD:
  "select_product i ch d = Some row \<Longrightarrow>
   pr_item_id row = i \<and> pr_chat_id row = ch \<and> row \<in> set (products d)"
  by (auto simp: select_product_def find_Some_iff)

lemma get_product_SomeD:
  assumes "get_product now i ch d = Some p"
  shows "\<exists>row. select_product i ch d = Some row \<and> strip (pr_title row) \<noteq> [] \<and> 0 < pr_price row
           \<and> p = \<lparr>p_item_id = i, p_chat_id = ch, p_title = strip (pr_title row),
                   p_price = pr_price row, p_url = pr_url row, p_user_id = pr_user_id row,
                   p_publish_date = pr_publish_date row, p_observations = pr_observations row,
                   p_created_at = now\<rparr>"
proof (cases "select_product i ch d")
  case None
  with assms show ?thesis by (simp add: get_product_def)
next
  case (Some row)
  note keys = select_product_SomeD [OF Some]
  show ?thesis
  proof (cases "strip (pr_title row) \<noteq> [] \<and> 0 < pr_price row")
    case True
    with assms Some keys show ?thesis
      by (auto simp: get_product_def Product_new_ok)
  next
    case False
    then have "strip (pr_title row) = [] \<or> pr_price row \<le> 0" by auto
    from Product_new_fail [OF this, of now "pr_item_id row" "pr_chat_id row" "pr_url row"
        "pr_user_id row" "pr_publish_date row" "pr_observations row"]
    obtain errs where "Product_new now (pr_item_id row) (pr_chat_id row) (pr_title row)
        (pr_price row) (pr_url row) (pr_user_id row) (pr_publish_date row) (pr_observations row)
        = Inl (ValidationError errs)" by blast
    with assms Some show ?thesis by (simp add: get_product_def)
  qed
qed

lemma get_product_valid_row:
  "select_product i ch d = Some row \<Longrightarrow> strip (pr_title row) \<noteq> [] \<Longrightarrow> 0 < pr_price row \<Longrightarrow>
   get_product now i ch d =
     Some \<lparr>p_item_id = i, p_chat_id = ch, p_title = strip (pr_title row),
           p_price = pr_price row, p_url = pr_url row, p_user_id = pr_user_id row,
           p_publish_date = pr_publish_date row, p_observations = pr_observations row,
           p_created_at = now\<rparr>"
  using select_product_SomeD [of i ch d row]
  by (simp add: get_product_def Product_new_ok)

lemma find_map_keys:
  assumes "\<And>x. P (f x) = P x"
  shows "find P (map f xs) = map_option f (find P xs)"
  using assms by (induction xs) auto

lemma select_after_update:
  "select_product i ch (snd (update_product_price now i' np obs d)) =
     map_option (\<lambda>r. if pr_item_id r = i'
                      then r\<lparr>pr_price := np, pr_observations := obs, pr_updated_at := now\<rparr> else r)
       (select_product i ch d)"
  by (simp add: select_product_def update_product_price_def find_map_keys)

lemma find_filter_append:
  assumes "\<And>x. P x \<Longrightarrow> Q x"
  shows "find P (filter Q xs @ ys) = (case find P xs of None \<Rightarrow> find P ys | Some x \<Rightarrow> Some x)"
  using assms by (induction xs) auto

lemma find_filter_none:
  assumes "\<And>x. P x \<Longrightarrow> \<not> Q x"
  shows "find P (filter Q xs @ ys) = find P ys"
  using assms by (induction xs) auto

lemma select_after_add:
  "select_product i ch (snd (add_product now p d)) =
     (if i = p_item_id p \<and> ch = p_chat_id p then Some (row_of now p) else select_product i ch d)"
proof (cases "i = p_item_id p \<and> ch = p_chat_id p")
  case True
  then show ?thesis
    by (simp add: select_product_def add_product_def product_key_def row_of_def
          find_filter_none [where Q = "\<lambda>r. pr_item_id r = p_item_id p \<longrightarrow> pr_chat_id r \<noteq> p_chat_id p"])
next
  case False
  have "find (\<lambda>r. pr_item_id r = i \<and> pr_chat_id r = ch)
          (filter (\<lambda>r. pr_item_id r = p_item_id p \<longrightarrow> pr_chat_id r \<noteq> p_chat_id p) (products d) @ [row_of now p])
        = (case find (\<lambda>r. pr_item_id r = i \<and> pr_chat_id r = ch) (products d) of
             None \<Rightarrow> find (\<lambda>r. pr_item_id r = i \<and> pr_chat_id r = ch) [row_of now p] | Some x \<Rightarrow> Some x)"
    using False by (intro find_filter_append) auto
  with False show ?thesis
    by (auto simp: select_product_def add_product_def product_key_def row_of_def split: option.splits)
qed

section \<open>Facts about reconciliation\<close>

lemma reconcile_new:
  assumes "get_product (clock t) (sr_id c) S (db t) = None"
    and "0 < sr_price c" and "strip (sr_title c) \<noteq> []"
  shows "process_product_result e c S t =
     t\<lparr>db := snd (add_product (clock t) (candidate_product (clock t) c S) (db t)),
       notification_service :=
         snd (notify_new_product e (clock t) (candidate_product (clock t) c S)
                (notification_service t))\<rparr>"
  using assms
  by (simp add: process_product_result_def handle_new_product_def Product_new_ok
        candidate_product_def add_product_def)

lemma reconcile_drop:
  assumes "get_product (clock t) (sr_id c) S (db t) = Some existing"
    and "sr_price c < p_price existing"
    and "0 < sr_price c" and "strip (sr_title c) \<noteq> []"
  shows "process_product_result e c S t =
     t\<lparr>db := snd (update_product_price (clock t) (sr_id c) (sr_price c)
                    (Some (Precio_anterior (p_price existing))) (db t)),
       notification_service :=
         snd (notify_price_drop e (clock t)
                ((candidate_product (clock t) c S)
                   \<lparr>p_observations := Some (Precio_anterior (p_price existing))\<rparr>)
                (p_price existing) (notification_service t))\<rparr>"
proof -
  from get_product_SomeD [OF assms(1)] have "p_chat_id existing = S" by auto
  with assms show ?thesis
    by (simp add: process_product_result_def handle_existing_product_def Product_new_ok
          candidate_product_def update_product_price_def)
qed

lemma reconcile_silent:
  assumes "get_product (clock t) (sr_id c) S (db t) = Some existing"
    and "p_price existing \<le> sr_price c"
  shows "process_product_result e c S t = t"
  using assms by (simp add: process_product_result_def handle_existing_product_def)

lemma reconcile_fail:
  assumes "strip (sr_title c) = [] \<or> sr_price c \<le> 0"
  shows "process_product_result e c S t = t"
proof (cases "get_product (clock t) (sr_id c) S (db t)")
  case None
  from Product_new_fail [OF assms, of "clock t" "sr_id c" S "sr_web_slug c" "sr_user_id c" None None]
  obtain errs where "Product_new (clock t) (sr_id c) S (sr_title c) (sr_price c) (sr_web_slug c)
      (sr_user_id c) None None = Inl (ValidationError errs)" by blast
  with None show ?thesis by (simp add: process_product_result_def handle_new_product_def)
next
  case (Some existing)
  from Product_new_fail [OF assms, of "clock t" "sr_id c" "p_chat_id existing" "sr_web_slug c"
      "sr_user_id c" None "Some (Precio_anterior (p_price existing))"]
  obtain errs where "Product_new (clock t) (sr_id c) (p_chat_id existing) (sr_title c) (sr_price c)
      (sr_web_slug c) (sr_user_id c) None (Some (Precio_anterior (p_price existing)))
      = Inl (ValidationError errs)" by blast
  with Some show ?thesis by (simp add: process_product_result_def handle_existing_product_def)
qed

lemma notify_new_attempts:
  "\<exists>out. attempts (snd (notify_new_product e now p ns)) =
           attempts ns @ [(p_chat_id p, New_product_msg p, out)]"
  using send_attempts [of e now "p_chat_id p" "New_product_msg p" ns]
  by (auto simp: notify_new_product_def)

lemma notify_drop_attempts:
  "\<exists>out. attempts (snd (notify_price_drop e now p old ns)) =
           attempts ns @ [(p_chat_id p, Price_drop_msg p old, out)]"
  using send_attempts [of e now "p_chat_id p" "Price_drop_msg p old" ns]
  by (auto simp: notify_price_drop_def)

lemma get_after_add:
  assumes "strip (p_title p) \<noteq> []" and "0 < p_price p"
  shows "get_product later (p_item_id p) (p_chat_id p) (snd (add_product now p d)) =
           Some (p\<lparr>p_title := strip (p_title p), p_created_at := later\<rparr>)"
proof -
  have sel: "select_product (p_item_id p) (p_chat_id p) (snd (add_product now p d)) = Some (row_of now p)"
    by (simp add: select_after_add)
  from get_product_valid_row [OF sel, of later] assms show ?thesis
    by (simp add: row_of_def)
qed

lemma get_other_after_add:
  assumes "(i, ch) \<noteq> (p_item_id p, p_chat_id p)"
  shows "get_product later i ch (snd (add_product now p d)) = get_product later i ch d"
  using assms by (auto simp: get_product_def select_after_add)

lemma keys_after_update:
  "map product_key (products (snd (update_product_price now i np obs d))) = map product_key (products d)"
  by (simp add: update_product_price_def product_key_def comp_def)

lemma rows_with_key_after_add:
  "filter (\<lambda>r. product_key r = k) (products (snd (add_product now p d))) =
     (if k = (p_item_id p, p_chat_id p) then [row_of now p]
      else filter (\<lambda>r. product_key r = k) (products d))"
proof -
  have a: "filter (\<lambda>x. product_key x \<noteq> k \<and> product_key x = k) xs = []"
    for xs :: "product_row list" by (induction xs) auto
  have b: "k \<noteq> k' \<Longrightarrow>
      filter (\<lambda>x. product_key x \<noteq> k' \<and> product_key x = k) xs
        = filter (\<lambda>r. product_key r = k) xs"
    for k' and xs :: "product_row list" by (induction xs) auto
  have rk: "product_key (row_of now p) = (p_item_id p, p_chat_id p)"
    by (simp add: row_of_def product_key_def)
  show ?thesis
  proof (cases "k = (p_item_id p, p_chat_id p)")
    case True
    then show ?thesis by (simp add: add_product_def a rk)
  next
    case False
    then have "(p_item_id p, p_chat_id p) \<noteq> k" by blast
    with False show ?thesis by (simp add: add_product_def b rk)
  qed
qed

lemma reconcile_found_keys:
  assumes "get_product (clock t) (sr_id c) S (db t) = Some existing"
  shows "map product_key (products (db (process_product_result e c S t)))
           = map product_key (products (db t))"
proof (cases "sr_price c < p_price existing \<and> 0 < sr_price c \<and> strip (sr_title c) \<noteq> []")
  case True
  then show ?thesis by (simp add: reconcile_drop [OF assms] keys_after_update)
next
  case False
  then consider "p_price existing \<le> sr_price c" | "strip (sr_title c) = [] \<or> sr_price c \<le> 0"
    by fastforce
  then show ?thesis
  proof cases
    case 1
    then show ?thesis by (simp add: reconcile_silent [OF assms])
  next
    case 2
    then show ?thesis by (simp add: reconcile_fail)
  qed
qed

lemma candidate_product_simps:
  "p_item_id (candidate_product now c S) = sr_id c"
  "p_chat_id (candidate_product now c S) = S"
  "p_price (candidate_product now c S) = sr_price c"
  "p_title (candidate_product now c S) = strip (sr_title c)"
  "(candidate_product now c S)\<lparr>p_created_at := later\<rparr> = candidate_product later c S"
  "(candidate_product now c S)\<lparr>p_title := strip (sr_title c), p_created_at := later\<rparr>
     = candidate_product later c S"
  by (simp_all add: candidate_product_def)

lemma clock_reconcile: "clock (process_product_result e c S t) = clock t"
  by (simp add: process_product_result_def handle_new_product_def handle_existing_product_def
        split: option.splits sum.splits prod.splits bool.splits)

section \<open>Facts about the polling cycle\<close>

lemma keys_after_add:
  "set (map product_key (products (snd (add_product now p d)))) =
     insert (p_item_id p, p_chat_id p) (set (map product_key (products d)))"
  by (auto simp: add_product_def row_of_def product_key_def)

lemma keys_mono_reconcile:
  "set (map product_key (products (db t)))
     \<subseteq> set (map product_key (products (db (process_product_result e c S t))))"
proof (cases "get_product (clock t) (sr_id c) S (db t)")
  case (Some existing)
  from reconcile_found_keys [OF Some, of e] show ?thesis by simp
next
  case None
  show ?thesis
  proof (cases "0 < sr_price c \<and> strip (sr_title c) \<noteq> []")
    case True
    then have "db (process_product_result e c S t)
        = snd (add_product (clock t) (candidate_product (clock t) c S) (db t))"
      by (simp add: reconcile_new [OF None])
    then show ?thesis by (simp only: keys_after_add) blast
  next
    case False
    then have "strip (sr_title c) = [] \<or> sr_price c \<le> 0" by auto
    then show ?thesis by (simp add: reconcile_fail)
  qed
qed

lemma tracked_after_reconcile:
  assumes "0 < sr_price c" and "strip (sr_title c) \<noteq> []"
  shows "(sr_id c, S) \<in> set (map product_key (products (db (process_product_result e c S t))))"
proof (cases "get_product (clock t) (sr_id c) S (db t)")
  case None
  have "db (process_product_result e c S t)
        = snd (add_product (clock t) (candidate_product (clock t) c S) (db t))"
    by (simp add: reconcile_new [OF None assms])
  then show ?thesis by (simp only: keys_after_add candidate_product_simps) simp
next
  case (Some existing)
  from get_product_SomeD [OF Some] obtain row where "select_product (sr_id c) S (db t) = Some row"
    by blast
  from select_product_SomeD [OF this] have "(sr_id c, S) \<in> set (map product_key (products (db t)))"
    by (force simp: product_key_def)
  with keys_mono_reconcile [of t e c S] show ?thesis by blast
qed

lemma process_results_append:
  "process_results e S (xs @ ys) t = process_results e S ys (process_results e S xs t)"
  by (induction xs arbitrary: t) simp_all

lemma process_searches_append:
  "process_searches e (xs @ ys) t = process_searches e ys (process_searches e xs t)"
  by (induction xs arbitrary: t) simp_all

lemma keys_mono_results:
  "set (map product_key (products (db t)))
     \<subseteq> set (map product_key (products (db (process_results e S rs t))))"
proof (induction rs arbitrary: t)
  case Nil
  show ?case by simp
next
  case (Cons r rs)
  have "set (map product_key (products (db t)))
      \<subseteq> set (map product_key (products (db (process_product_result e r S t))))"
    by (rule keys_mono_reconcile)
  also have "\<dots> \<subseteq> set (map product_key (products
      (db (process_results e S rs (process_product_result e r S t)))))"
    by (rule Cons.IH)
  finally show ?case by simp
qed

lemma tracked_after_results:
  assumes "r \<in> set rs" and "0 < sr_price r" and "strip (sr_title r) \<noteq> []"
  shows "(sr_id r, S) \<in> set (map product_key (products (db (process_results e S rs t))))"
proof -
  from assms(1) obtain xs ys where "rs = xs @ r # ys" by (auto simp: in_set_conv_decomp)
  then have "process_results e S rs t =
      process_results e S ys (process_product_result e r S (process_results e S xs t))"
    by (simp add: process_results_append)
  with tracked_after_reconcile [OF assms(2,3), of S e "process_results e S xs t"]
    keys_mono_results [of "process_product_result e r S (process_results e S xs t)" e S ys]
  show ?thesis by auto
qed

lemma db_sleep: "db (sleep n t) = db t"
  by (simp add: sleep_def)

lemma keys_mono_search:
  "set (map product_key (products (db t)))
     \<subseteq> set (map product_key (products (db (process_search e s t))))"
  using keys_mono_results [of t e "ps_chat_id s"]
  by (auto simp: process_search_def split: sum.splits)

lemma keys_mono_searches:
  "set (map product_key (products (db t)))
     \<subseteq> set (map product_key (products (db (process_searches e ss t))))"
proof (induction ss arbitrary: t)
  case Nil
  show ?case by simp
next
  case (Cons s ss)
  have "set (map product_key (products (db t)))
      \<subseteq> set (map product_key (products (db (sleep 2 (process_search e s t)))))"
    by (simp only: db_sleep) (rule keys_mono_search)
  also have "\<dots> \<subseteq> set (map product_key (products
      (db (process_searches e ss (sleep 2 (process_search e s t))))))"
    by (rule Cons.IH)
  finally show ?case by simp
qed

lemma tracked_after_search:
  assumes "search_products_playwright e s = Inr rs"
    and "r \<in> set rs" and "0 < sr_price r" and "strip (sr_title r) \<noteq> []"
  shows "(sr_id r, ps_chat_id s) \<in> set (map product_key (products (db (process_search e s t))))"
proof -
  from assms(2) have "rs \<noteq> []" by auto
  with assms(1) have "process_search e s t = process_results e (ps_chat_id s) rs t"
    by (simp add: process_search_def)
  with tracked_after_results [OF assms(2-4)] show ?thesis by simp
qed

lemma clock_results: "clock (process_results e S rs t) = clock t"
  by (induction rs arbitrary: t) (simp_all add: clock_reconcile)

lemma clock_search: "clock (process_search e s t) = clock t"
  by (simp add: process_search_def clock_results split: sum.splits)

lemma clock_searches: "clock (process_searches e ss t) = clock t + 2 * 1000000 * int (length ss)"
  by (induction ss arbitrary: t) (simp_all add: clock_search sleep_def algebra_simps)

section \<open>Facts about the search registry\<close>

lemma get_product_cong:
  "products d = products d' \<Longrightarrow> get_product now i ch d = get_product now i ch d'"
  by (simp add: get_product_def select_product_def)

lemma get_product_None_iff:
  "get_product a i ch d = None \<longleftrightarrow> get_product b i ch d = None"
  by (simp add: get_product_def Product_new_def Let_def split: option.splits sum.splits)

lemma reconcile_found_no_new:
  assumes "get_product (clock t) (sr_id c) S (db t) = Some existing"
  shows "filter is_new_product (attempts (notification_service (process_product_result e c S t)))
           = filter is_new_product (attempts (notification_service t))"
proof (cases "sr_price c < p_price existing \<and> 0 < sr_price c \<and> strip (sr_title c) \<noteq> []")
  case True
  let ?u = "(candidate_product (clock t) c S)\<lparr>p_observations := Some (Precio_anterior (p_price existing))\<rparr>"
  from notify_drop_attempts [of e "clock t" ?u "p_price existing" "notification_service t"]
  obtain out where "attempts (snd (notify_price_drop e (clock t) ?u (p_price existing) (notification_service t)))
      = attempts (notification_service t) @ [(p_chat_id ?u, Price_drop_msg ?u (p_price existing), out)]"
    by blast
  with True show ?thesis by (simp add: reconcile_drop [OF assms])
next
  case False
  then consider "p_price existing \<le> sr_price c" | "strip (sr_title c) = [] \<or> sr_price c \<le> 0"
    by fastforce
  then show ?thesis
  proof cases
    case 1
    then show ?thesis by (simp add: reconcile_silent [OF assms])
  next
    case 2
    then show ?thesis by (simp add: reconcile_fail)
  qed
qed

lemma ProductSearch_new_InrD:
  assumes "ProductSearch_new chat kw lo hi cat dst pd ordr un nm act = Inr s"
  shows "s = \<lparr>ps_chat_id = chat, ps_keywords = strip kw, ps_min_price = lo, ps_max_price = hi,
              ps_category_ids = cat, ps_distance = dst, ps_publish_date = pd, ps_order = ordr,
              ps_username = un, ps_name = nm, ps_active = act\<rparr>"
proof -
  from assms obtain k' lo' hi' where
    k: "validate_keywords kw = Inr k'" and l: "validate_min_price lo = Inr lo'" and
    h: "validate_price_range (validate_min_price lo) hi = Inr hi'" and
    s: "s = \<lparr>ps_chat_id = chat, ps_keywords = k', ps_min_price = lo', ps_max_price = hi',
              ps_category_ids = cat, ps_distance = dst, ps_publish_date = pd, ps_order = ordr,
              ps_username = un, ps_name = nm, ps_active = act\<rparr>"
    by (auto simp: ProductSearch_new_def Let_def split: sum.splits)
  from k have "k' = strip kw" by (auto simp: validate_keywords_def split: if_splits)
  moreover from l have "lo' = lo"
    by (auto simp: validate_min_price_def split: option.splits if_splits)
  moreover from h have "hi' = hi"
    by (auto simp: validate_price_range_def split: option.splits if_splits sum.splits)
  ultimately show ?thesis using s by simp
qed

lemma filter_other_keys_map:
  assumes "\<And>r. search_key (f r) = search_key r"
  shows "filter (\<lambda>r. search_key r \<noteq> k) (map (\<lambda>r. if search_key r = k then f r else r) rows)
           = filter (\<lambda>r. search_key r \<noteq> k) rows"
  using assms by (induction rows) auto

lemma length_filter_key:
  assumes "distinct (map search_key rows)" and "k \<in> set (map search_key rows)"
  shows "Suc (length (filter (\<lambda>r. search_key r \<noteq> k) rows)) = length rows"
  using assms
proof (induction rows)
  case Nil
  then show ?case by simp
next
  case (Cons r rows)
  show ?case
  proof (cases "search_key r = k")
    case True
    have "\<forall>x \<in> set rows. search_key x \<noteq> k"
    proof
      fix x assume "x \<in> set rows"
      then have "search_key x \<in> set (map search_key rows)" by simp
      moreover from Cons.prems(1) True have "k \<notin> set (map search_key rows)" by simp
      ultimately show "search_key x \<noteq> k" by blast
    qed
    then have "filter (\<lambda>r. search_key r \<noteq> k) rows = rows" by (simp add: filter_id_conv)
    with True show ?thesis by simp
  next
    case False
    with Cons show ?thesis by auto
  qed
qed

section \<open>Evaluation of the examples\<close>

lemmas ex_defs = tracker0_def tracker_two_def db_sweep_def row_old_def row_recent_def row_B_def
  cand_drop_def cand_same_def cand_drop_blank_def cand_new_def cand_new_blank_def env0_def existing0_def

lemmas eval_defs = process_product_result_def handle_new_product_def handle_existing_product_def
  get_product_def select_product_def Product_new_def validate_title_def validate_price_def
  strip_def isspace_def add_product_def update_product_price_def row_of_def product_key_def
  notify_new_product_def notify_price_drop_def send_telegram_message_def check_rate_limit_def
  log_attempt_def candidate_product_def CURRENT_TIMESTAMP_def SearchResult_new_def

section \<open>Price drops\<close>

text \<open>
  What a price drop writes: every row of \<open>products\<close> with the candidate's \<open>item_id\<close>,
  in whatever scope, gets the new price, the note and \<open>updated_at\<close>.
\<close>

lemma price_drop_rewrites_item:
  assumes "get_product (clock t) (sr_id c) S (db t) = Some existing"
    and "sr_price c < p_price existing" and "0 < sr_price c" and "strip (sr_title c) \<noteq> []"
  shows "products (db (process_product_result e c S t)) =
     map (\<lambda>r. if pr_item_id r = sr_id c
               then r\<lparr>pr_price := sr_price c,
                      pr_observations := Some (Precio_anterior (p_price existing)),
                      pr_updated_at := clock t\<rparr>
               else r)
       (products (db t))"
  by (simp add: reconcile_drop [OF assms] update_product_price_def)

text \<open>
  C1, at a concrete input. Listing \<open>X1\<close> is tracked under scope \<open>A\<close> at 45 and under scope
  \<open>B\<close> at 100. Reconciling a candidate at 30 under scope \<open>A\<close> sends one price-drop message
  to \<open>A\<close>, and the row of scope \<open>B\<close> now holds the price 30 and the note of \<open>A\<close>'s former
  price 45: the row of another scope did not keep its own price and observations.
\<close>

theorem price_drop_leaks_across_scopes:
  "select_product ''X1'' ''B'' (db tracker_two) = Some row_B
   \<and> pr_price row_B = 100 \<and> pr_observations row_B = None
   \<and> get_product (clock tracker_two) (sr_id cand_drop) ''A'' (db tracker_two) = Some existing0
   \<and> sr_price cand_drop = 30
   \<and> select_product ''X1'' ''B'' (db (process_product_result env0 cand_drop ''A'' tracker_two))
       = Some (row_B\<lparr>pr_price := 30, pr_observations := Some (Precio_anterior 45),
                     pr_updated_at := 60000000\<rparr>)
   \<and> attempts (notification_service (process_product_result env0 cand_drop ''A'' tracker_two))
       = [(''A'', Price_drop_msg
                   (existing0\<lparr>p_price := 30, p_observations := Some (Precio_anterior 45)\<rparr>) 45,
           Posted (Status 200))]"
  by (simp add: ex_defs eval_defs)

text \<open>
  C2, for a candidate whose title is not blank. Let the store return a tracked listing for
  \<open>(id, S)\<close> with price \<open>P\<close>. If the candidate is a validated search result (price above
  zero) with a title that is not blank after trimming and a price below \<open>P\<close>, the store
  afterwards returns that price for \<open>(id, S)\<close>, the row's note is the former price, and the
  gateway's log has grown by exactly one entry, a price-drop message to \<open>S\<close> carrying the
  product at the new price together with the former price. If the candidate's price is not
  below \<open>P\<close>, whatever its title, the whole state is unchanged.
\<close>

theorem price_drop_reconciliation:
  assumes tracked: "get_product (clock t) (sr_id c) S (db t) = Some existing"
  shows "(sr_price c < p_price existing \<and> 0 < sr_price c \<and> strip (sr_title c) \<noteq> [] \<longrightarrow>
           map_option p_price (get_product later (sr_id c) S (db (process_product_result e c S t)))
             = Some (sr_price c)
         \<and> map_option pr_observations
             (select_product (sr_id c) S (db (process_product_result e c S t)))
             = Some (Some (Precio_anterior (p_price existing)))
         \<and> (\<exists>out. attempts (notification_service (process_product_result e c S t)) =
               attempts (notification_service t)
               @ [(S, Price_drop_msg
                        ((candidate_product (clock t) c S)
                           \<lparr>p_observations := Some (Precio_anterior (p_price existing))\<rparr>)
                        (p_price existing), out)]))
       \<and> (p_price existing \<le> sr_price c \<longrightarrow> process_product_result e c S t = t)"
proof (intro conjI impI)
  assume drop: "sr_price c < p_price existing \<and> 0 < sr_price c \<and> strip (sr_title c) \<noteq> []"
  then have low: "sr_price c < p_price existing" and cand: "0 < sr_price c"
    and title: "strip (sr_title c) \<noteq> []" by simp_all
  note step = reconcile_drop [OF tracked low cand title, of e]
  from get_product_SomeD [OF tracked] obtain row where
    row: "select_product (sr_id c) S (db t) = Some row" and
    ok: "strip (pr_title row) \<noteq> []" by blast
  let ?row' = "row\<lparr>pr_price := sr_price c,
                    pr_observations := Some (Precio_anterior (p_price existing)),
                    pr_updated_at := clock t\<rparr>"
  from select_product_SomeD [OF row] have "pr_item_id row = sr_id c" by simp
  then have sel: "select_product (sr_id c) S (db (process_product_result e c S t)) = Some ?row'"
    by (simp add: step select_after_update row)
  from get_product_valid_row [OF sel, of later] ok cand
  show "map_option p_price (get_product later (sr_id c) S (db (process_product_result e c S t)))
          = Some (sr_price c)"
    by simp
  from sel show "map_option pr_observations
             (select_product (sr_id c) S (db (process_product_result e c S t)))
             = Some (Some (Precio_anterior (p_price existing)))"
    by simp
  from notify_drop_attempts [of e "clock t"
      "(candidate_product (clock t) c S)\<lparr>p_observations := Some (Precio_anterior (p_price existing))\<rparr>"
      "p_price existing" "notification_service t"]
  show "\<exists>out. attempts (notification_service (process_product_result e c S t)) =
               attempts (notification_service t)
               @ [(S, Price_drop_msg
                        ((candidate_product (clock t) c S)
                           \<lparr>p_observations := Some (Precio_anterior (p_price existing))\<rparr>)
                        (p_price existing), out)]"
    by (simp add: step candidate_product_def)
next
  assume "p_price existing \<le> sr_price c"
  from reconcile_silent [OF tracked this] show "process_product_result e c S t = t" .
qed

theorem price_drop_reconciliation_witness:
  "get_product (clock tracker0) (sr_id cand_drop) ''A'' (db tracker0) = Some existing0
   \<and> 0 < sr_price cand_drop \<and> strip (sr_title cand_drop) \<noteq> []
   \<and> sr_price cand_drop < p_price existing0
   \<and> map_option p_price
       (get_product 70000000 (sr_id cand_drop) ''A''
          (db (process_product_result env0 cand_drop ''A'' tracker0))) = Some 30
   \<and> p_price existing0 \<le> sr_price cand_same
   \<and> process_product_result env0 cand_same ''A'' tracker0 = tracker0"
proof -
  have a: "get_product (clock tracker0) (sr_id cand_drop) ''A'' (db tracker0) = Some existing0"
    by (simp add: ex_defs eval_defs)
  have a': "get_product (clock tracker0) (sr_id cand_same) ''A'' (db tracker0) = Some existing0"
    by (simp add: ex_defs eval_defs)
  have b: "0 < sr_price cand_drop" "0 < sr_price cand_same" by (simp_all add: ex_defs)
  have c: "strip (sr_title cand_drop) \<noteq> []" "strip (sr_title cand_same) \<noteq> []"
    by (simp_all add: ex_defs strip_def isspace_def)
  have d: "sr_price cand_drop < p_price existing0" "p_price existing0 \<le> sr_price cand_same"
    by (simp_all add: ex_defs)
  have e: "sr_price cand_drop = 30" by (simp add: ex_defs)
  show ?thesis
    using a b c d e
      price_drop_reconciliation [OF a, of 70000000 env0]
      price_drop_reconciliation [OF a', of 70000000 env0]
    by simp
qed

text \<open>
  C2 as stated, for every candidate, fails: a candidate with a blank title and a lower price
  is rejected by the \<open>Product\<close> validator, so the stored price stays and nothing is sent.
\<close>

theorem price_drop_blank_title_counterexample:
  "SearchResult_new ''X1'' ''   '' 30 ''red-shoes'' ''u1'' = Inr cand_drop_blank
   \<and> map_option p_price (get_product (clock tracker0) (sr_id cand_drop_blank) ''A'' (db tracker0))
       = Some 45
   \<and> sr_price cand_drop_blank < 45
   \<and> map_option p_price
       (get_product (clock tracker0) (sr_id cand_drop_blank) ''A''
          (db (process_product_result env0 cand_drop_blank ''A'' tracker0))) = Some 45
   \<and> attempts (notification_service (process_product_result env0 cand_drop_blank ''A'' tracker0)) = []"
  by (simp add: ex_defs eval_defs)

section \<open>New listings\<close>

text \<open>
  C3, for a candidate whose title is not blank. Let the store return no tracked listing for
  \<open>(C.id, S)\<close>, and let the candidate be a validated search result (price above zero) with
  a title that is not blank after trimming. Reconciliation stores the row built from the
  candidate, which is then the one row with that key and the listing the store returns, and
  the gateway's log grows by exactly one entry, a new-listing message to \<open>S\<close>. Reconciling
  the same id under \<open>S\<close> again, at any later instant and with the price unchanged, leaves the
  state as it is. No other path creates a row: when the store does return a listing,
  reconciliation leaves the keys of the table as they are, and adding or removing a search
  does not touch the table.
\<close>

theorem new_listing_reconciliation:
  assumes untracked: "get_product (clock t) (sr_id c) S (db t) = None"
    and cand: "0 < sr_price c"
    and title: "strip (sr_title c) \<noteq> []"
  shows "select_product (sr_id c) S (db (process_product_result e c S t))
           = Some (row_of (clock t) (candidate_product (clock t) c S))
       \<and> get_product later (sr_id c) S (db (process_product_result e c S t))
           = Some (candidate_product later c S)
       \<and> filter (\<lambda>r. product_key r = (sr_id c, S)) (products (db (process_product_result e c S t)))
           = [row_of (clock t) (candidate_product (clock t) c S)]
       \<and> (\<exists>out. attempts (notification_service (process_product_result e c S t)) =
             attempts (notification_service t)
             @ [(S, New_product_msg (candidate_product (clock t) c S), out)])
       \<and> (sr_id c2 = sr_id c \<and> sr_price c2 = sr_price c \<longrightarrow>
             process_product_result e c2 S ((process_product_result e c S t)\<lparr>clock := later\<rparr>)
               = (process_product_result e c S t)\<lparr>clock := later\<rparr>)
       \<and> (get_product (clock t3) (sr_id c3) S3 (db t3) \<noteq> None \<longrightarrow>
             map product_key (products (db (process_product_result e c3 S3 t3)))
               = map product_key (products (db t3)))
       \<and> products (db (snd (add_search e S kw lo hi cat un nm t3))) = products (db t3)
       \<and> products (db (snd (remove_search e S kw t3))) = products (db t3)"
proof -
  let ?p = "candidate_product (clock t) c S"
  let ?t' = "process_product_result e c S t"
  note step = reconcile_new [OF untracked cand title, of e]
  have valid: "strip (p_title ?p) \<noteq> []" "0 < p_price ?p"
    using cand title by (simp_all add: candidate_product_simps strip_idem)
  have sel: "select_product (sr_id c) S (db ?t') = Some (row_of (clock t) ?p)"
    by (simp add: step select_after_add candidate_product_simps)
  have got: "get_product k (sr_id c) S (db ?t') = Some (candidate_product k c S)" for k
    using get_after_add [OF valid, of k "clock t" "db t"]
    by (simp add: step candidate_product_simps strip_idem)
  have one: "filter (\<lambda>r. product_key r = (sr_id c, S)) (products (db ?t'))
           = [row_of (clock t) ?p]"
    by (simp add: step rows_with_key_after_add candidate_product_simps)
  have att: "\<exists>out. attempts (notification_service ?t') =
             attempts (notification_service t) @ [(S, New_product_msg ?p, out)]"
    using notify_new_attempts [of e "clock t" ?p "notification_service t"]
    by (simp add: step candidate_product_simps)
  have again: "sr_id c2 = sr_id c \<and> sr_price c2 = sr_price c \<longrightarrow>
             process_product_result e c2 S (?t'\<lparr>clock := later\<rparr>) = ?t'\<lparr>clock := later\<rparr>"
  proof
    assume same: "sr_id c2 = sr_id c \<and> sr_price c2 = sr_price c"
    have "get_product (clock (?t'\<lparr>clock := later\<rparr>)) (sr_id c2) S (db (?t'\<lparr>clock := later\<rparr>))
            = Some (candidate_product later c S)"
      using got [of later] same by simp
    from reconcile_silent [OF this, of e] same
    show "process_product_result e c2 S (?t'\<lparr>clock := later\<rparr>) = ?t'\<lparr>clock := later\<rparr>"
      by (simp add: candidate_product_simps)
  qed
  have only: "get_product (clock t3) (sr_id c3) S3 (db t3) \<noteq> None \<longrightarrow>
             map product_key (products (db (process_product_result e c3 S3 t3)))
               = map product_key (products (db t3))"
    using reconcile_found_keys [of t3 c3 S3 _ e] by blast
  have adds: "products (db (snd (add_search e S kw lo hi cat un nm t3))) = products (db t3)"
    by (simp add: add_search_def add_search_db_def split: sum.splits)
  have rems: "products (db (snd (remove_search e S kw t3))) = products (db t3)"
    by (simp add: remove_search_def deactivate_search_def)
  from sel got [of later] one att again only adds rems show ?thesis by (intro conjI)
qed

theorem new_listing_reconciliation_witness:
  "get_product (clock tracker0) (sr_id cand_new) ''A'' (db tracker0) = None
   \<and> 0 < sr_price cand_new \<and> strip (sr_title cand_new) \<noteq> []
   \<and> get_product 70000000 (sr_id cand_new) ''A''
        (db (process_product_result env0 cand_new ''A'' tracker0))
       = Some (candidate_product 70000000 cand_new ''A'')
   \<and> process_product_result env0 cand_new ''A''
        ((process_product_result env0 cand_new ''A'' tracker0)\<lparr>clock := 70000000\<rparr>)
       = (process_product_result env0 cand_new ''A'' tracker0)\<lparr>clock := 70000000\<rparr>
   \<and> get_product (clock tracker0) (sr_id cand_drop) ''A'' (db tracker0) \<noteq> None
   \<and> map product_key (products (db (process_product_result env0 cand_drop ''A'' tracker0)))
       = map product_key (products (db tracker0))"
proof -
  have a: "get_product (clock tracker0) (sr_id cand_new) ''A'' (db tracker0) = None"
    by (simp add: ex_defs eval_defs)
  have b: "0 < sr_price cand_new" by (simp add: ex_defs)
  have c: "strip (sr_title cand_new) \<noteq> []" by (simp add: ex_defs strip_def isspace_def)
  have d: "get_product (clock tracker0) (sr_id cand_drop) ''A'' (db tracker0) \<noteq> None"
    by (simp add: ex_defs eval_defs)
  show ?thesis
    using a b c d
      new_listing_reconciliation [OF a b c, of env0 70000000 cand_new tracker0 cand_drop "''A''"]
    by simp
qed

text \<open>
  C3 as stated, for every candidate, fails: an untracked candidate with a blank title is
  rejected by the \<open>Product\<close> validator, nothing is stored and nothing is sent.
\<close>

theorem new_listing_blank_title_counterexample:
  "SearchResult_new ''X9'' ''   '' 80 ''green-bike'' ''u9'' = Inr cand_new_blank
   \<and> get_product (clock tracker0) (sr_id cand_new_blank) ''A'' (db tracker0) = None
   \<and> select_product (sr_id cand_new_blank) ''A'' (db tracker0) = None
   \<and> select_product (sr_id cand_new_blank) ''A''
        (db (process_product_result env0 cand_new_blank ''A'' tracker0)) = None
   \<and> attempts (notification_service (process_product_result env0 cand_new_blank ''A'' tracker0)) = []"
  by (simp add: ex_defs eval_defs)

section \<open>Scope isolation\<close>

text \<open>
  C4, for candidates whose titles are not blank. Let neither \<open>(id, S1)\<close> nor \<open>(id, S2)\<close> be
  tracked, with \<open>S1\<close> and \<open>S2\<close> different, and let the two candidates with that id be
  validated search results with titles that are not blank. After reconciling one under
  \<open>S1\<close> and the other under \<open>S2\<close> there is exactly one row for each of the two keys, each
  built from its own candidate, the store returns each, and the gateway's log has grown by
  exactly two entries: a new-listing message to \<open>S1\<close>, then one to \<open>S2\<close>.
\<close>

theorem scope_isolation:
  assumes diff: "S1 \<noteq> S2"
    and un1: "get_product (clock t) (sr_id c1) S1 (db t) = None"
    and un2: "get_product (clock t) (sr_id c1) S2 (db t) = None"
    and same: "sr_id c2 = sr_id c1"
    and cand: "0 < sr_price c1" "0 < sr_price c2"
    and title: "strip (sr_title c1) \<noteq> []" "strip (sr_title c2) \<noteq> []"
  shows "filter (\<lambda>r. product_key r = (sr_id c1, S1))
           (products (db (process_product_result e c2 S2 (process_product_result e c1 S1 t))))
           = [row_of (clock t) (candidate_product (clock t) c1 S1)]
       \<and> filter (\<lambda>r. product_key r = (sr_id c1, S2))
           (products (db (process_product_result e c2 S2 (process_product_result e c1 S1 t))))
           = [row_of (clock t) (candidate_product (clock t) c2 S2)]
       \<and> get_product later (sr_id c1) S1
           (db (process_product_result e c2 S2 (process_product_result e c1 S1 t)))
           = Some (candidate_product later c1 S1)
       \<and> get_product later (sr_id c1) S2
           (db (process_product_result e c2 S2 (process_product_result e c1 S1 t)))
           = Some (candidate_product later c2 S2)
       \<and> (\<exists>out1 out2.
             attempts (notification_service
                (process_product_result e c2 S2 (process_product_result e c1 S1 t))) =
             attempts (notification_service t)
             @ [(S1, New_product_msg (candidate_product (clock t) c1 S1), out1),
                (S2, New_product_msg (candidate_product (clock t) c2 S2), out2)])"
proof -
  let ?p1 = "candidate_product (clock t) c1 S1"
  let ?p2 = "candidate_product (clock t) c2 S2"
  let ?t1 = "process_product_result e c1 S1 t"
  let ?t2 = "process_product_result e c2 S2 ?t1"
  note step1 = reconcile_new [OF un1 cand(1) title(1), of e]
  have clk: "clock ?t1 = clock t" by (rule clock_reconcile)
  have db1: "db ?t1 = snd (add_product (clock t) ?p1 (db t))" by (simp add: step1)
  have ns1: "notification_service ?t1 = snd (notify_new_product e (clock t) ?p1 (notification_service t))"
    by (simp add: step1)
  have un2': "get_product (clock ?t1) (sr_id c2) S2 (db ?t1) = None"
    using diff un2 same by (simp add: clk db1 get_other_after_add candidate_product_simps)
  note step2 = reconcile_new [OF un2' cand(2) title(2), of e]
  have db2: "db ?t2 = snd (add_product (clock t) ?p2 (db ?t1))" by (simp add: step2 clk)
  have ns2: "notification_service ?t2 = snd (notify_new_product e (clock t) ?p2 (notification_service ?t1))"
    by (simp add: step2 clk)
  have valid1: "strip (p_title ?p1) \<noteq> []" "0 < p_price ?p1"
    using cand title by (simp_all add: candidate_product_simps strip_idem)
  have valid2: "strip (p_title ?p2) \<noteq> []" "0 < p_price ?p2"
    using cand title by (simp_all add: candidate_product_simps strip_idem)
  have r1: "filter (\<lambda>r. product_key r = (sr_id c1, S1)) (products (db ?t2)) = [row_of (clock t) ?p1]"
    using diff by (simp add: db2 db1 rows_with_key_after_add candidate_product_simps same)
  have r2: "filter (\<lambda>r. product_key r = (sr_id c1, S2)) (products (db ?t2)) = [row_of (clock t) ?p2]"
    by (simp add: db2 rows_with_key_after_add candidate_product_simps same)
  have g1: "get_product later (sr_id c1) S1 (db ?t2) = Some (candidate_product later c1 S1)"
    using diff get_after_add [OF valid1, of later "clock t" "db t"]
    by (simp add: db2 db1 get_other_after_add candidate_product_simps strip_idem)
  have g2: "get_product later (sr_id c1) S2 (db ?t2) = Some (candidate_product later c2 S2)"
    using get_after_add [OF valid2, of later "clock t" "db ?t1"]
    by (simp add: db2 candidate_product_simps strip_idem same)
  from notify_new_attempts [of e "clock t" ?p1 "notification_service t"] obtain out1 where
    a1: "attempts (notification_service ?t1) =
           attempts (notification_service t) @ [(S1, New_product_msg ?p1, out1)]"
    by (auto simp: ns1 candidate_product_simps)
  from notify_new_attempts [of e "clock t" ?p2 "notification_service ?t1"] obtain out2 where
    a2: "attempts (notification_service ?t2) =
           attempts (notification_service ?t1) @ [(S2, New_product_msg ?p2, out2)]"
    by (auto simp: ns2 candidate_product_simps)
  have att: "\<exists>out1 out2. attempts (notification_service ?t2) =
             attempts (notification_service t)
             @ [(S1, New_product_msg ?p1, out1), (S2, New_product_msg ?p2, out2)]"
    using a1 a2 by simp
  from r1 r2 g1 g2 att show ?thesis by (intro conjI)
qed

theorem scope_isolation_witness:
  "''A'' \<noteq> ''B''
   \<and> get_product (clock tracker0) (sr_id cand_new) ''A'' (db tracker0) = None
   \<and> get_product (clock tracker0) (sr_id cand_new) ''B'' (db tracker0) = None
   \<and> 0 < sr_price cand_new \<and> strip (sr_title cand_new) \<noteq> []
   \<and> get_product 70000000 (sr_id cand_new) ''A''
        (db (process_product_result env0 cand_new ''B''
               (process_product_result env0 cand_new ''A'' tracker0)))
       = Some (candidate_product 70000000 cand_new ''A'')
   \<and> get_product 70000000 (sr_id cand_new) ''B''
        (db (process_product_result env0 cand_new ''B''
               (process_product_result env0 cand_new ''A'' tracker0)))
       = Some (candidate_product 70000000 cand_new ''B'')
   \<and> length (attempts (notification_service
        (process_product_result env0 cand_new ''B''
           (process_product_result env0 cand_new ''A'' tracker0)))) = 2"
proof -
  have n: "''A'' \<noteq> ''B''" by simp
  have a: "get_product (clock tracker0) (sr_id cand_new) ''A'' (db tracker0) = None"
    by (simp add: ex_defs eval_defs)
  have a': "get_product (clock tracker0) (sr_id cand_new) ''B'' (db tracker0) = None"
    by (simp add: ex_defs eval_defs)
  have b: "0 < sr_price cand_new" by (simp add: ex_defs)
  have c: "strip (sr_title cand_new) \<noteq> []" by (simp add: ex_defs strip_def isspace_def)
  have e: "attempts (notification_service tracker0) = []" by (simp add: ex_defs)
  from scope_isolation [OF n a a' refl b b c c, of env0 70000000] obtain out1 out2 where
    g1: "get_product 70000000 (sr_id cand_new) ''A''
        (db (process_product_result env0 cand_new ''B''
               (process_product_result env0 cand_new ''A'' tracker0)))
       = Some (candidate_product 70000000 cand_new ''A'')" and
    g2: "get_product 70000000 (sr_id cand_new) ''B''
        (db (process_product_result env0 cand_new ''B''
               (process_product_result env0 cand_new ''A'' tracker0)))
       = Some (candidate_product 70000000 cand_new ''B'')" and
    at: "attempts (notification_service
        (process_product_result env0 cand_new ''B''
           (process_product_result env0 cand_new ''A'' tracker0))) =
         attempts (notification_service tracker0)
         @ [(''A'', New_product_msg (candidate_product (clock tracker0) cand_new ''A''), out1),
            (''B'', New_product_msg (candidate_product (clock tracker0) cand_new ''B''), out2)]"
    by blast
  from at e have "length (attempts (notification_service
        (process_product_result env0 cand_new ''B''
           (process_product_result env0 cand_new ''A'' tracker0)))) = 2"
    by simp
  with n a a' b c g1 g2 show ?thesis by (intro conjI)
qed

text \<open>
  C4 as stated fails for a candidate with a blank title: reconciled under two scopes that do
  not track it, it creates no row and no message.
\<close>

theorem scope_isolation_blank_title_counterexample:
  "SearchResult_new ''X9'' ''   '' 80 ''green-bike'' ''u9'' = Inr cand_new_blank
   \<and> get_product (clock tracker0) (sr_id cand_new_blank) ''A'' (db tracker0) = None
   \<and> get_product (clock tracker0) (sr_id cand_new_blank) ''B'' (db tracker0) = None
   \<and> products (db (process_product_result env0 cand_new_blank ''B''
         (process_product_result env0 cand_new_blank ''A'' tracker0))) = products (db tracker0)
   \<and> attempts (notification_service (process_product_result env0 cand_new_blank ''B''
         (process_product_result env0 cand_new_blank ''A'' tracker0))) = []"
  by (simp add: ex_defs eval_defs)

section \<open>Failure isolation in the polling cycle\<close>

text \<open>
  C7. A listing whose processing raises (the \<open>Product\<close> validators reject its title or its
  price) leaves the state as it is, and the listings after it in the same search are
  reconciled from the state its predecessors left. A search whose marketplace query raises
  leaves the state as it is, as a search with no results does, and the searches after it are
  processed after the pause. In every case the loop goes on through the whole list: the
  cycle is the loop over all active searches, the clock at its end has advanced by the pause
  of each of them, and every listing with a valid price and title that the query returned for
  any search of the cycle is tracked under that search's scope when the cycle ends, whatever
  failed before or after it.
\<close>

theorem failure_isolation:
  "(strip (sr_title bad) = [] \<or> sr_price bad \<le> 0 \<longrightarrow>
      process_product_result e bad S t = t
      \<and> process_results e S (xs @ bad # ys) t = process_results e S ys (process_results e S xs t))
   \<and> (search_products_playwright e s = Inl ex \<longrightarrow>
      process_search e s t = t
      \<and> process_searches e (ss1 @ s # ss2) t
          = process_searches e ss2 (sleep 2 (process_searches e ss1 t)))
   \<and> process_searches e (ss1 @ s # ss2) t
       = process_searches e ss2 (sleep 2 (process_search e s (process_searches e ss1 t)))
   \<and> process_all_searches e t = process_searches e (get_all_active_searches (db t)) t
   \<and> clock (process_searches e ss t) = clock t + 2 * 1000000 * int (length ss)
   \<and> (s' \<in> set ss \<and> search_products_playwright e s' = Inr rs \<and> r \<in> set rs
        \<and> 0 < sr_price r \<and> strip (sr_title r) \<noteq> [] \<longrightarrow>
      (sr_id r, ps_chat_id s')
        \<in> set (map product_key (products (db (process_searches e ss t)))))"
proof -
  have listing: "strip (sr_title bad) = [] \<or> sr_price bad \<le> 0 \<longrightarrow>
      process_product_result e bad S t = t
      \<and> process_results e S (xs @ bad # ys) t = process_results e S ys (process_results e S xs t)"
    by (simp add: process_results_append reconcile_fail)
  have search: "search_products_playwright e s = Inl ex \<longrightarrow>
      process_search e s t = t
      \<and> process_searches e (ss1 @ s # ss2) t
          = process_searches e ss2 (sleep 2 (process_searches e ss1 t))"
    by (simp add: process_searches_append process_search_def)
  have rest: "process_searches e (ss1 @ s # ss2) t
       = process_searches e ss2 (sleep 2 (process_search e s (process_searches e ss1 t)))"
    by (simp add: process_searches_append)
  have cycle: "process_all_searches e t = process_searches e (get_all_active_searches (db t)) t"
    by (simp add: process_all_searches_def Let_def)
  have tracked: "s' \<in> set ss \<and> search_products_playwright e s' = Inr rs \<and> r \<in> set rs
        \<and> 0 < sr_price r \<and> strip (sr_title r) \<noteq> [] \<longrightarrow>
      (sr_id r, ps_chat_id s')
        \<in> set (map product_key (products (db (process_searches e ss t))))"
  proof
    assume h: "s' \<in> set ss \<and> search_products_playwright e s' = Inr rs \<and> r \<in> set rs
        \<and> 0 < sr_price r \<and> strip (sr_title r) \<noteq> []"
    then obtain as bs where "ss = as @ s' # bs" by (auto simp: in_set_conv_decomp)
    then have split: "process_searches e ss t =
        process_searches e bs (sleep 2 (process_search e s' (process_searches e as t)))"
      by (simp add: process_searches_append)
    from h tracked_after_search [of e s' rs r "process_searches e as t"]
    have "(sr_id r, ps_chat_id s')
        \<in> set (map product_key (products (db (sleep 2 (process_search e s' (process_searches e as t))))))"
      by (simp add: db_sleep)
    with keys_mono_searches [of "sleep 2 (process_search e s' (process_searches e as t))" e bs]
    show "(sr_id r, ps_chat_id s')
        \<in> set (map product_key (products (db (process_searches e ss t))))"
      unfolding split by blast
  qed
  from listing search rest cycle clock_searches [of e ss t] tracked show ?thesis by (intro conjI)
qed

theorem failure_isolation_witness:
  "strip (sr_title cand_new_blank) = []
   \<and> process_results env1 ''A'' ([] @ cand_new_blank # [cand_new]) tracker0
       = process_results env1 ''A'' [cand_new] (process_results env1 ''A'' [] tracker0)
   \<and> search_products_playwright env1 search_bad = Inl WallapopAPIError
   \<and> process_searches env1 ([] @ search_bad # [search_ok]) tracker0
       = process_searches env1 [search_ok] (sleep 2 (process_searches env1 [] tracker0))
   \<and> search_ok \<in> set [search_bad, search_ok]
   \<and> search_products_playwright env1 search_ok = Inr [cand_new_blank, cand_new]
   \<and> cand_new \<in> set [cand_new_blank, cand_new]
   \<and> 0 < sr_price cand_new \<and> strip (sr_title cand_new) \<noteq> []
   \<and> (sr_id cand_new, ps_chat_id search_ok)
        \<in> set (map product_key (products (db (process_searches env1 [search_bad, search_ok] tracker0))))
   \<and> clock (process_searches env1 [search_bad, search_ok] tracker0) = clock tracker0 + 4000000"
proof -
  have a: "strip (sr_title cand_new_blank) = []" by (simp add: ex_defs strip_def isspace_def)
  have b: "search_products_playwright env1 search_bad = Inl WallapopAPIError"
    by (simp add: env1_def search_bad_def)
  have c: "search_ok \<in> set [search_bad, search_ok]" by simp
  have d: "search_products_playwright env1 search_ok = Inr [cand_new_blank, cand_new]"
    by (simp add: env1_def search_ok_def)
  have f: "cand_new \<in> set [cand_new_blank, cand_new]" by simp
  have g: "0 < sr_price cand_new" by (simp add: ex_defs)
  have h: "strip (sr_title cand_new) \<noteq> []" by (simp add: ex_defs strip_def isspace_def)
  note inst = failure_isolation [of cand_new_blank env1 "''A''" tracker0 "[]" "[cand_new]"
      search_bad WallapopAPIError "[]" "[search_ok]" "[search_bad, search_ok]" search_ok
      "[cand_new_blank, cand_new]" cand_new]
  from inst a have w1: "process_results env1 ''A'' ([] @ cand_new_blank # [cand_new]) tracker0
       = process_results env1 ''A'' [cand_new] (process_results env1 ''A'' [] tracker0)"
    by blast
  from inst b have w2: "process_searches env1 ([] @ search_bad # [search_ok]) tracker0
       = process_searches env1 [search_ok] (sleep 2 (process_searches env1 [] tracker0))"
    by blast
  from inst c d f g h have w3: "(sr_id cand_new, ps_chat_id search_ok)
        \<in> set (map product_key (products (db (process_searches env1 [search_bad, search_ok] tracker0))))"
    by blast
  from inst have "clock (process_searches env1 [search_bad, search_ok] tracker0)
      = clock tracker0 + 2 * 1000000 * int (length [search_bad, search_ok])"
    by blast
  then have w4: "clock (process_searches env1 [search_bad, search_ok] tracker0) = clock tracker0 + 4000000"
    by simp
  from a w1 b w2 c d f g h w3 w4 show ?thesis by (intro conjI)
qed

section \<open>Removing and re-adding a search\<close>

text \<open>
  C9. Let the parameters of the re-add pass validation, giving the search \<open>s\<close>. Removing
  \<open>(chat, keywords s)\<close> returns \<open>True\<close>, keeps every search row in place with its id, its
  creation time and its parameters, switches \<open>active\<close> off in the rows with that key (stamping
  the audit column \<open>updated_at\<close>, which no operation reads and the search definition does
  not carry), and leaves the tracked listings as they were. Re-adding at any later instant
  returns \<open>True\<close>; afterwards exactly one row has the key, it holds the refreshed parameters
  and is active, the rows of all other keys are as before, the table has not grown when the
  key was stored before, and the tracked listings are still as they were. Reconciling a
  candidate that was tracked in that scope then adds no new-listing message to the log.
\<close>

theorem idempotent_readd:
  assumes valid: "ProductSearch_new chat kw lo hi cat ''400'' 24 ''newest'' un nm True = Inr s"
  shows "fst (remove_search e chat (ps_keywords s) t) = True
       \<and> product_searches (db (snd (remove_search e chat (ps_keywords s) t))) =
           map (\<lambda>r. if search_key r = (chat, ps_keywords s)
                     then r\<lparr>row_search := (row_search r)\<lparr>ps_active := False\<rparr>,
                            row_updated_at := clock t\<rparr>
                     else r)
             (product_searches (db t))
       \<and> products (db (snd (remove_search e chat (ps_keywords s) t))) = products (db t)
       \<and> fst (add_search e chat kw lo hi cat un nm
                ((snd (remove_search e chat (ps_keywords s) t))\<lparr>clock := later\<rparr>)) = True
       \<and> filter (\<lambda>r. search_key r = (chat, ps_keywords s))
           (product_searches (db (snd (add_search e chat kw lo hi cat un nm
                ((snd (remove_search e chat (ps_keywords s) t))\<lparr>clock := later\<rparr>))))) =
           [\<lparr>row_id = Suc (search_seq (db t)), row_search = s,
             row_created_at = CURRENT_TIMESTAMP later, row_updated_at = later\<rparr>]
       \<and> s = \<lparr>ps_chat_id = chat, ps_keywords = strip kw, ps_min_price = lo, ps_max_price = hi,
              ps_category_ids = cat, ps_distance = ''400'', ps_publish_date = 24,
              ps_order = ''newest'', ps_username = un, ps_name = nm, ps_active = True\<rparr>
       \<and> filter (\<lambda>r. search_key r \<noteq> (chat, ps_keywords s))
           (product_searches (db (snd (add_search e chat kw lo hi cat un nm
                ((snd (remove_search e chat (ps_keywords s) t))\<lparr>clock := later\<rparr>))))) =
           filter (\<lambda>r. search_key r \<noteq> (chat, ps_keywords s)) (product_searches (db t))
       \<and> (distinct (map search_key (product_searches (db t)))
            \<and> (chat, ps_keywords s) \<in> set (map search_key (product_searches (db t))) \<longrightarrow>
          length (product_searches (db (snd (add_search e chat kw lo hi cat un nm
                ((snd (remove_search e chat (ps_keywords s) t))\<lparr>clock := later\<rparr>)))))
            = length (product_searches (db t)))
       \<and> products (db (snd (add_search e chat kw lo hi cat un nm
                ((snd (remove_search e chat (ps_keywords s) t))\<lparr>clock := later\<rparr>)))) =
           products (db t)
       \<and> (get_product now0 (sr_id c) chat (db t) \<noteq> None \<longrightarrow>
          filter is_new_product (attempts (notification_service
             (process_product_result e c chat
                (snd (add_search e chat kw lo hi cat un nm
                   ((snd (remove_search e chat (ps_keywords s) t))\<lparr>clock := later\<rparr>)))))) =
          filter is_new_product (attempts (notification_service
             (snd (add_search e chat kw lo hi cat un nm
                ((snd (remove_search e chat (ps_keywords s) t))\<lparr>clock := later\<rparr>))))))"
proof -
  let ?k = "(chat, ps_keywords s)"
  let ?off = "\<lambda>r. r\<lparr>row_search := (row_search r)\<lparr>ps_active := False\<rparr>, row_updated_at := clock t\<rparr>"
  let ?rows1 = "map (\<lambda>r. if search_key r = ?k then ?off r else r) (product_searches (db t))"
  let ?t1 = "snd (remove_search e chat (ps_keywords s) t)"
  let ?t2 = "snd (add_search e chat kw lo hi cat un nm (?t1\<lparr>clock := later\<rparr>))"
  let ?new = "\<lparr>row_id = Suc (search_seq (db t)), row_search = s,
             row_created_at = CURRENT_TIMESTAMP later, row_updated_at = later\<rparr>"
  note s_eq = ProductSearch_new_InrD [OF valid]
  have key_s: "ps_chat_id s = chat" by (simp add: s_eq)
  have r0: "fst (remove_search e chat (ps_keywords s) t) = True"
    by (simp add: remove_search_def deactivate_search_def)
  have r1: "product_searches (db ?t1) = ?rows1"
    by (simp add: remove_search_def deactivate_search_def)
  have r2: "products (db ?t1) = products (db t)"
    by (simp add: remove_search_def deactivate_search_def)
  have r3: "search_seq (db ?t1) = search_seq (db t)"
    by (simp add: remove_search_def deactivate_search_def)
  have a0: "fst (add_search e chat kw lo hi cat un nm (?t1\<lparr>clock := later\<rparr>)) = True"
    by (simp add: add_search_def valid add_search_db_def)
  have a1: "product_searches (db ?t2) =
      filter (\<lambda>r. search_key r \<noteq> ?k) (product_searches (db ?t1)) @ [?new]"
    by (simp add: add_search_def valid add_search_db_def key_s r3)
  have a2: "products (db ?t2) = products (db t)"
    by (simp add: add_search_def valid add_search_db_def r2)
  have key_new: "search_key ?new = ?k" by (simp add: search_key_def key_s)
  have key_off: "search_key (?off r) = search_key r" for r by (simp add: search_key_def)
  have others: "filter (\<lambda>r. search_key r \<noteq> ?k) (product_searches (db ?t1))
      = filter (\<lambda>r. search_key r \<noteq> ?k) (product_searches (db t))"
    unfolding r1 by (rule filter_other_keys_map) (rule key_off)
  have none: "filter (\<lambda>r. search_key r \<noteq> ?k \<and> search_key r = ?k) rows = []"
    for rows :: "search_row list" by (induction rows) auto
  have same: "filter (\<lambda>r. search_key r \<noteq> ?k \<and> search_key r \<noteq> ?k) rows
      = filter (\<lambda>r. search_key r \<noteq> ?k) rows"
    for rows :: "search_row list" by (induction rows) auto
  have one: "filter (\<lambda>r. search_key r = ?k) (product_searches (db ?t2)) = [?new]"
    unfolding a1 by (simp add: none key_new)
  have rest: "filter (\<lambda>r. search_key r \<noteq> ?k) (product_searches (db ?t2))
      = filter (\<lambda>r. search_key r \<noteq> ?k) (product_searches (db t))"
    unfolding a1 by (simp add: key_new others)
  have len: "distinct (map search_key (product_searches (db t)))
            \<and> ?k \<in> set (map search_key (product_searches (db t))) \<longrightarrow>
          length (product_searches (db ?t2)) = length (product_searches (db t))"
  proof
    assume "distinct (map search_key (product_searches (db t)))
            \<and> ?k \<in> set (map search_key (product_searches (db t)))"
    then have "Suc (length (filter (\<lambda>r. search_key r \<noteq> ?k) (product_searches (db t))))
        = length (product_searches (db t))"
      by (intro length_filter_key) simp_all
    then show "length (product_searches (db ?t2)) = length (product_searches (db t))"
      unfolding a1 others by simp
  qed
  have quiet: "get_product now0 (sr_id c) chat (db t) \<noteq> None \<longrightarrow>
      filter is_new_product (attempts (notification_service (process_product_result e c chat ?t2)))
        = filter is_new_product (attempts (notification_service ?t2))"
  proof
    assume "get_product now0 (sr_id c) chat (db t) \<noteq> None"
    then have "get_product (clock ?t2) (sr_id c) chat (db t) \<noteq> None"
      using get_product_None_iff [of now0 "sr_id c" chat "db t" "clock ?t2"] by simp
    then obtain existing where "get_product (clock ?t2) (sr_id c) chat (db ?t2) = Some existing"
      using get_product_cong [OF a2, of "clock ?t2" "sr_id c" chat] by auto
    from reconcile_found_no_new [OF this, of e]
    show "filter is_new_product (attempts (notification_service (process_product_result e c chat ?t2)))
        = filter is_new_product (attempts (notification_service ?t2))" .
  qed
  from r0 r1 r2 a0 one s_eq rest len a2 quiet show ?thesis by (intro conjI)
qed

theorem idempotent_readd_witness:
  "ProductSearch_new ''A'' ''shoes'' (Some 10) (Some 50) None ''400'' 24 ''newest'' None None True
     = Inr search_shoes
   \<and> distinct (map search_key (product_searches (db tracker_shoes)))
   \<and> (''A'', ps_keywords search_shoes) \<in> set (map search_key (product_searches (db tracker_shoes)))
   \<and> length (product_searches (db (snd (add_search env0 ''A'' ''shoes'' (Some 10) (Some 50) None None None
          ((snd (remove_search env0 ''A'' (ps_keywords search_shoes) tracker_shoes))
             \<lparr>clock := 70000000\<rparr>)))))
       = length (product_searches (db tracker_shoes))
   \<and> filter (\<lambda>r. search_key r = (''A'', ps_keywords search_shoes))
        (product_searches (db (snd (add_search env0 ''A'' ''shoes'' (Some 10) (Some 50) None None None
          ((snd (remove_search env0 ''A'' (ps_keywords search_shoes) tracker_shoes))
             \<lparr>clock := 70000000\<rparr>)))))
       = [\<lparr>row_id = Suc (search_seq (db tracker_shoes)), row_search = search_shoes,
           row_created_at = CURRENT_TIMESTAMP 70000000, row_updated_at = 70000000\<rparr>]
   \<and> get_product 0 (sr_id cand_same) ''A'' (db tracker_shoes) \<noteq> None
   \<and> filter is_new_product (attempts (notification_service
        (process_product_result env0 cand_same ''A''
          (snd (add_search env0 ''A'' ''shoes'' (Some 10) (Some 50) None None None
            ((snd (remove_search env0 ''A'' (ps_keywords search_shoes) tracker_shoes))
               \<lparr>clock := 70000000\<rparr>))))))
       = filter is_new_product (attempts (notification_service
          (snd (add_search env0 ''A'' ''shoes'' (Some 10) (Some 50) None None None
            ((snd (remove_search env0 ''A'' (ps_keywords search_shoes) tracker_shoes))
               \<lparr>clock := 70000000\<rparr>)))))"
proof -
  have v: "ProductSearch_new ''A'' ''shoes'' (Some 10) (Some 50) None ''400'' 24 ''newest'' None None True
     = Inr search_shoes"
    by (simp add: ProductSearch_new_def validate_keywords_def validate_min_price_def
          validate_price_range_def strip_def isspace_def search_shoes_def)
  have d: "distinct (map search_key (product_searches (db tracker_shoes)))"
    by (simp add: tracker_shoes_def)
  have k: "(''A'', ps_keywords search_shoes) \<in> set (map search_key (product_searches (db tracker_shoes)))"
    by (simp add: tracker_shoes_def search_key_def search_shoes_def)
  have g: "get_product 0 (sr_id cand_same) ''A'' (db tracker_shoes) \<noteq> None"
    by (simp add: tracker_shoes_def ex_defs eval_defs)
  from v d k g idempotent_readd [OF v, of env0 tracker_shoes 70000000 0 cand_same]
  show ?thesis by blast
qed

section \<open>Rate limiting\<close>

text \<open>
  C6. Once the counter has reached the configured maximum, a send inside the current window
  returns \<open>False\<close> and the transport is not contacted: the attempt is logged as
  \<open>Rate_limited\<close> and neither the counter nor the window start changes. The counter
  grows by one exactly when the send returns \<open>True\<close>, which happens exactly when the rate
  check passed and the transport answered with status 200; any other status and an exception
  of the transport give \<open>False\<close> as a value. For a run of sends that all fall inside the
  window of the starting state, the confirmed sends of the run are the growth of the counter,
  they never take the counter above the maximum, and from a counter at the maximum no send of
  the run reaches the transport.
\<close>

theorem rate_limit_window:
  assumes window: "\<forall>r \<in> set reqs. fst r - last_reset ns \<le> 3600 * 1000000"
  shows "(MAX_NOTIFICATIONS_PER_HOUR e \<le> notification_count ns \<and> now - last_reset ns \<le> 3600 * 1000000
            \<longrightarrow> send_telegram_message e now c m ns = (False, log_attempt c m Rate_limited ns))
       \<and> notification_count (snd (send_telegram_message e now c m ns)) =
           notification_count (snd (check_rate_limit e now ns))
             + (if fst (send_telegram_message e now c m ns) then 1 else 0)
       \<and> (fst (send_telegram_message e now c m ns) \<longleftrightarrow>
             fst (check_rate_limit e now ns) \<and> post e (length (attempts ns)) c m = Status 200)
       \<and> (\<exists>new. attempts (snd (send_all e reqs ns)) = attempts ns @ new
             \<and> length new = length reqs
             \<and> last_reset (snd (send_all e reqs ns)) = last_reset ns
             \<and> notification_count (snd (send_all e reqs ns)) = notification_count ns + int (confirmed new)
             \<and> confirmed new = length (filter id (fst (send_all e reqs ns)))
             \<and> (notification_count ns \<le> MAX_NOTIFICATIONS_PER_HOUR e \<longrightarrow>
                  int (confirmed new) \<le> MAX_NOTIFICATIONS_PER_HOUR e - notification_count ns)
             \<and> (MAX_NOTIFICATIONS_PER_HOUR e \<le> notification_count ns \<longrightarrow>
                  contacted new = 0 \<and> confirmed new = 0))"
proof -
  from send_all_in_window [OF window, of e] obtain new where
    n1: "attempts (snd (send_all e reqs ns)) = attempts ns @ new" and
    n2: "length new = length reqs" and
    n3: "last_reset (snd (send_all e reqs ns)) = last_reset ns" and
    n4: "notification_count (snd (send_all e reqs ns)) = notification_count ns + int (confirmed new)" and
    n5: "confirmed new = length (filter id (fst (send_all e reqs ns)))" and
    n6: "confirmed new \<le> contacted new" and
    n7: "notification_count ns \<le> MAX_NOTIFICATIONS_PER_HOUR e \<longrightarrow>
            notification_count (snd (send_all e reqs ns)) \<le> MAX_NOTIFICATIONS_PER_HOUR e" and
    n8: "MAX_NOTIFICATIONS_PER_HOUR e \<le> notification_count ns \<longrightarrow> contacted new = 0"
    by blast
  have run: "\<exists>new. attempts (snd (send_all e reqs ns)) = attempts ns @ new
             \<and> length new = length reqs
             \<and> last_reset (snd (send_all e reqs ns)) = last_reset ns
             \<and> notification_count (snd (send_all e reqs ns)) = notification_count ns + int (confirmed new)
             \<and> confirmed new = length (filter id (fst (send_all e reqs ns)))
             \<and> (notification_count ns \<le> MAX_NOTIFICATIONS_PER_HOUR e \<longrightarrow>
                  int (confirmed new) \<le> MAX_NOTIFICATIONS_PER_HOUR e - notification_count ns)
             \<and> (MAX_NOTIFICATIONS_PER_HOUR e \<le> notification_count ns \<longrightarrow>
                  contacted new = 0 \<and> confirmed new = 0)"
  proof (intro exI [of _ new] conjI impI)
    show "attempts (snd (send_all e reqs ns)) = attempts ns @ new" by (rule n1)
    show "length new = length reqs" by (rule n2)
    show "last_reset (snd (send_all e reqs ns)) = last_reset ns" by (rule n3)
    show "notification_count (snd (send_all e reqs ns)) = notification_count ns + int (confirmed new)"
      by (rule n4)
    show "confirmed new = length (filter id (fst (send_all e reqs ns)))" by (rule n5)
    show "int (confirmed new) \<le> MAX_NOTIFICATIONS_PER_HOUR e - notification_count ns"
      if "notification_count ns \<le> MAX_NOTIFICATIONS_PER_HOUR e"
      using that n7 n4 by simp
    show "contacted new = 0" if "MAX_NOTIFICATIONS_PER_HOUR e \<le> notification_count ns"
      using that n8 by simp
    show "confirmed new = 0" if "MAX_NOTIFICATIONS_PER_HOUR e \<le> notification_count ns"
      using that n8 n6 by simp
  qed
  have cap: "MAX_NOTIFICATIONS_PER_HOUR e \<le> notification_count ns \<and> now - last_reset ns \<le> 3600 * 1000000
            \<longrightarrow> send_telegram_message e now c m ns = (False, log_attempt c m Rate_limited ns)"
    using send_limited [of now ns e c m] by blast
  from cap send_count [of e now c m ns] send_success_iff [of e now c m ns] run
  show ?thesis by (intro conjI)
qed

theorem rate_limit_window_witness:
  "fst (10 :: datetime, ''A'', Search_removed_msg ''x'') - last_reset ns_full \<le> 3600 * 1000000
   \<and> MAX_NOTIFICATIONS_PER_HOUR env0 \<le> notification_count ns_full
   \<and> 20 - last_reset ns_full \<le> 3600 * 1000000
   \<and> send_telegram_message env0 20 ''A'' (Search_removed_msg ''x'') ns_full =
       (False, log_attempt ''A'' (Search_removed_msg ''x'') Rate_limited ns_full)
   \<and> fst (send_telegram_message env0 20 ''A'' (Search_removed_msg ''x'') ns_almost)
   \<and> notification_count (snd (send_telegram_message env0 20 ''A'' (Search_removed_msg ''x'') ns_almost)) = 50"
  using rate_limit_window [of "[(10, ''A'', Search_removed_msg ''x'')]" ns_full env0 20 "''A''"
          "Search_removed_msg ''x''"]
        rate_limit_window [of "[]" ns_almost env0 20 "''A''" "Search_removed_msg ''x''"]
  by (simp add: ns_full_def ns_almost_def env0_def check_rate_limit_def)

section \<open>Validation of a new search\<close>

text \<open>
  C5. When the keywords are blank after trimming, or both bounds are given and the maximum is
  not above the minimum, the \<open>ProductSearch\<close> constructor raises, \<open>add_search\<close> returns
  \<open>False\<close>, and the database is what it was.
\<close>

theorem add_search_rejects_invalid:
  assumes "strip keywords = [] \<or> (\<exists>lo hi. min_price = Some lo \<and> max_price = Some hi \<and> hi \<le> lo)"
  shows "(\<exists>ex. ProductSearch_new chat_id keywords min_price max_price category_ids ''400'' 24
                  ''newest'' username name True = Inl ex)
       \<and> fst (add_search e chat_id keywords min_price max_price category_ids username name t) = False
       \<and> db (snd (add_search e chat_id keywords min_price max_price category_ids username name t)) = db t"
proof -
  have "\<exists>ex. ProductSearch_new chat_id keywords min_price max_price category_ids ''400'' 24
                  ''newest'' username name True = Inl ex"
    using assms
    by (auto simp: ProductSearch_new_def validate_keywords_def validate_min_price_def
          validate_price_range_def Let_def split: sum.splits option.splits)
  then obtain ex where "ProductSearch_new chat_id keywords min_price max_price category_ids ''400'' 24
                  ''newest'' username name True = Inl ex" ..
  then show ?thesis by (simp add: add_search_def)
qed

theorem add_search_rejects_invalid_witness:
  "strip ''   '' = []
   \<and> fst (add_search env0 ''A'' ''   '' None None None None None tracker0) = False
   \<and> db (snd (add_search env0 ''A'' ''   '' None None None None None tracker0)) = db tracker0
   \<and> (10 :: price) \<le> 50
   \<and> fst (add_search env0 ''A'' ''shoes'' (Some 50) (Some 10) None None None tracker0) = False
   \<and> db (snd (add_search env0 ''A'' ''shoes'' (Some 50) (Some 10) None None None tracker0)) = db tracker0"
proof -
  have blank: "strip ''   '' = []" by (simp add: strip_def isspace_def)
  have range: "\<exists>lo hi. Some (50 :: price) = Some lo \<and> Some (10 :: price) = Some hi \<and> hi \<le> lo" by simp
  show ?thesis
    using blank
      add_search_rejects_invalid [of "''   ''" None None "''A''" None None None env0 tracker0, OF disjI1 [OF blank]]
      add_search_rejects_invalid [of "''shoes''" "Some 50" "Some 10" "''A''" None None None env0 tracker0, OF disjI2 [OF range]]
    by simp
qed

section \<open>Removing a search\<close>

text \<open>
  C10. \<open>remove_search\<close> returns \<open>True\<close> for every key and every state, and hands the
  same removal message to the gateway whether or not a search with that key is stored; when
  no stored search has the key, the database is left as it was.
\<close>

theorem remove_search_always_true:
  "fst (remove_search e chat_id keywords t) = True
   \<and> notification_service (snd (remove_search e chat_id keywords t)) =
       snd (notify_search_removed e (clock t) chat_id keywords (notification_service t))
   \<and> (\<exists>out. attempts (notification_service (snd (remove_search e chat_id keywords t))) =
         attempts (notification_service t) @ [(chat_id, Search_removed_msg keywords, out)])
   \<and> ((\<forall>r \<in> set (product_searches (db t)). search_key r \<noteq> (chat_id, keywords)) \<longrightarrow>
        db (snd (remove_search e chat_id keywords t)) = db t)"
proof -
  have same: "map (\<lambda>r. if search_key r = k then f r else r) rows = rows"
    if "\<forall>r \<in> set rows. search_key r \<noteq> k" for k f and rows :: "search_row list"
    using that by (induction rows) auto
  from send_attempts [of e "clock t" chat_id "Search_removed_msg keywords" "notification_service t"]
  have att: "\<exists>out. attempts (notification_service (snd (remove_search e chat_id keywords t))) =
         attempts (notification_service t) @ [(chat_id, Search_removed_msg keywords, out)]"
    by (auto simp: remove_search_def deactivate_search_def notify_search_removed_def)
  have unchanged: "(\<forall>r \<in> set (product_searches (db t)). search_key r \<noteq> (chat_id, keywords)) \<longrightarrow>
        db (snd (remove_search e chat_id keywords t)) = db t"
    by (auto simp: remove_search_def deactivate_search_def same)
  show ?thesis using att unchanged
    by (simp add: remove_search_def deactivate_search_def)
qed

theorem remove_search_always_true_witness:
  "product_searches (db tracker0) = []
   \<and> fst (remove_search env0 ''A'' ''never added'' tracker0) = True
   \<and> db (snd (remove_search env0 ''A'' ''never added'' tracker0)) = db tracker0
   \<and> attempts (notification_service (snd (remove_search env0 ''A'' ''never added'' tracker0))) =
       [(''A'', Search_removed_msg ''never added'', Posted (Status 200))]"
  using remove_search_always_true [of env0 "''A''" "''never added''" tracker0]
  by (simp add: tracker0_def db_sweep_def env0_def remove_search_def deactivate_search_def
        notify_search_removed_def send_telegram_message_def check_rate_limit_def log_attempt_def)

section \<open>Retention sweep\<close>



end
